theory Spec2Isabelle
  imports Main "HOL-Library.Word"
begin

section \<open>Values shared by the Go packages\<close>

text \<open>
  \<open>primitive.ObjectID\<close> is \<open>[12]byte\<close>: a 96-bit value, read big-endian.
  \<open>time.Time\<close> and \<open>time.Duration\<close> are integers in nanoseconds; every reading of
  \<open>time.Now()\<close> is an argument of the function that takes it.
\<close>

type_synonym ObjectID = "96 word"
type_synonym Time = int
type_synonym Duration = int

text \<open>
  The driver writes a \<open>time.Time\<close> as a BSON \<open>DateTime\<close>, whole milliseconds since
  the epoch (\<open>t.Unix() * 1000 + t.Nanosecond() / 1000000\<close>, rounding down), and
  reads it back as that millisecond. \<open>DateTime t\<close> is the instant that comes back.
\<close>

definition DateTime :: "Time \<Rightarrow> Time" where
  "DateTime t = (t div 1000000) * 1000000"

text \<open>
  \<open>t.Format(time.RFC3339)\<close> prints date, time of day and zone down to the second:
  the string is kept as the second it renders.
\<close>

datatype timestr = RFC3339 int

definition Format_RFC3339 :: "Time \<Rightarrow> timestr" where
  "Format_RFC3339 t = RFC3339 (t div 1000000000)"

datatype error =
    ErrInvalidHex
  | ErrNoDocuments
  | ErrDuplicateKey
  | ErrRegex
  | ErrAuthAttemptNotFound
  | ErrInvalidAuthAttemptID
  | ErrAuthAttemptAlreadyExists
  | ErrWrongTelegramUsername
  | ErrInvalidCode
  | ErrArticleNotFound
  | ErrCourseNotFound
  | ErrUserNotFound
  | ErrInvalidIDFormat
  | ErrorsNew string

subsection \<open>Hexadecimal form of an ObjectID\<close>

definition hextable :: string where
  "hextable = ''0123456789abcdef''"

text \<open>\<open>encoding/hex\<close>'s \<open>fromHexChar\<close>: digits and both cases of a to f.\<close>

definition fromHexChar :: "char \<Rightarrow> nat option" where
  "fromHexChar c =
     (let n = (of_char c :: nat) in
      if 48 \<le> n \<and> n \<le> 57 then Some (n - 48)
      else if 97 \<le> n \<and> n \<le> 102 then Some (n - 97 + 10)
      else if 65 \<le> n \<and> n \<le> 70 then Some (n - 65 + 10)
      else None)"

text \<open>\<open>id.Hex()\<close>: the 24 lower-case digits, most significant first.\<close>

definition hexnibble :: "nat \<Rightarrow> nat \<Rightarrow> nat" where
  "hexnibble n i = (n div 16 ^ (23 - i)) mod 16"

definition Hex :: "ObjectID \<Rightarrow> string" where
  "Hex oid = map (\<lambda>i. hextable ! hexnibble (unat oid) i) [0..<24]"

text \<open>
  \<open>primitive.ObjectIDFromHex\<close>: the length must be 24 and every character a
  hexadecimal digit.
\<close>

definition ObjectIDFromHex :: "string \<Rightarrow> error + ObjectID" where
  "ObjectIDFromHex s =
     (if length s \<noteq> 24 then Inl ErrInvalidHex
      else case those (map fromHexChar s) of
             None \<Rightarrow> Inl ErrInvalidHex
           | Some ds \<Rightarrow> Inr (of_nat (foldl (\<lambda>a d. 16 * a + d) 0 ds)))"

section \<open>The document collection\<close>

text \<open>
  A collection holds its documents in insertion order, with pairwise different
  \<open>_id\<close> (\<open>InsertOne\<close> refuses a duplicate key), and a journal of the write commands
  it has received. The commands below are the ones the repositories send; transport
  failures of the driver are not part of the embedding, so a command fails only
  for the reason written out. Every instant a repository hands over, in a document,
  in a \<open>$set\<close> or in a filter, reaches the collection as its \<open>DateTime\<close>.
\<close>

datatype wcommand = InsertWrite ObjectID | UpdateWrite ObjectID | DeleteWrite ObjectID

record 'd collection =
  docs :: "'d list"
  journal :: "wcommand list"

record UpdateResult =
  MatchedCount :: nat
  ModifiedCount :: nat

definition ids :: "('d \<Rightarrow> ObjectID) \<Rightarrow> 'd collection \<Rightarrow> ObjectID list" where
  "ids idof c = map idof (docs c)"

definition FindOne :: "('d \<Rightarrow> bool) \<Rightarrow> 'd collection \<Rightarrow> error + 'd" where
  "FindOne flt c =
     (case find flt (docs c) of None \<Rightarrow> Inl ErrNoDocuments | Some d \<Rightarrow> Inr d)"

text \<open>
  \<open>FindOne\<close> with \<open>SetSort({key, -1})\<close>: a matching document whose key is greatest
  (the earliest inserted one among equals).
\<close>

definition FindOneSortDesc ::
  "('d \<Rightarrow> bool) \<Rightarrow> ('d \<Rightarrow> int) \<Rightarrow> 'd collection \<Rightarrow> error + 'd" where
  "FindOneSortDesc flt key c =
     (case filter flt (docs c) of
        [] \<Rightarrow> Inl ErrNoDocuments
      | d # ds \<Rightarrow> Inr (foldl (\<lambda>b x. if key b < key x then x else b) d ds))"

definition Find :: "('d \<Rightarrow> bool) \<Rightarrow> 'd collection \<Rightarrow> error + 'd list" where
  "Find flt c = Inr (filter flt (docs c))"

definition InsertOne ::
  "('d \<Rightarrow> ObjectID) \<Rightarrow> 'd \<Rightarrow> 'd collection \<Rightarrow> (error + unit) \<times> 'd collection" where
  "InsertOne idof d c =
     (if idof d \<in> set (ids idof c)
      then (Inl ErrDuplicateKey, c\<lparr>journal := journal c @ [InsertWrite (idof d)]\<rparr>)
      else (Inr (), c\<lparr>docs := docs c @ [d],
                       journal := journal c @ [InsertWrite (idof d)]\<rparr>))"

fun update_first :: "('d \<Rightarrow> bool) \<Rightarrow> ('d \<Rightarrow> 'd) \<Rightarrow> 'd list \<Rightarrow> 'd list" where
  "update_first p f [] = []"
| "update_first p f (d # ds) = (if p d then f d # ds else d # update_first p f ds)"

fun remove_first :: "('d \<Rightarrow> bool) \<Rightarrow> 'd list \<Rightarrow> 'd list" where
  "remove_first p [] = []"
| "remove_first p (d # ds) = (if p d then ds else d # remove_first p ds)"

text \<open>
  \<open>UpdateOne\<close> with the filter \<open>{_id: oid}\<close> (also \<open>UpdateByID\<close>) and a \<open>$set\<close>
  document, given as the function it applies. \<open>ModifiedCount\<close> counts the document
  only when the \<open>$set\<close> changed it.
\<close>

definition UpdateByID ::
  "('d \<Rightarrow> ObjectID) \<Rightarrow> ObjectID \<Rightarrow> ('d \<Rightarrow> 'd) \<Rightarrow> 'd collection
     \<Rightarrow> (error + UpdateResult) \<times> 'd collection" where
  "UpdateByID idof oid upd c =
     (case find (\<lambda>d. idof d = oid) (docs c) of
        None \<Rightarrow>
          (Inr \<lparr>MatchedCount = 0, ModifiedCount = 0\<rparr>,
           c\<lparr>journal := journal c @ [UpdateWrite oid]\<rparr>)
      | Some d \<Rightarrow>
          (Inr \<lparr>MatchedCount = 1, ModifiedCount = (if upd d = d then 0 else 1)\<rparr>,
           c\<lparr>docs := update_first (\<lambda>d. idof d = oid) upd (docs c),
             journal := journal c @ [UpdateWrite oid]\<rparr>))"

text \<open>\<open>DeleteOne\<close> with the filter \<open>{_id: oid}\<close>; the result is \<open>DeletedCount\<close>.\<close>

definition DeleteOne ::
  "('d \<Rightarrow> ObjectID) \<Rightarrow> ObjectID \<Rightarrow> 'd collection \<Rightarrow> (error + nat) \<times> 'd collection" where
  "DeleteOne idof oid c =
     (case find (\<lambda>d. idof d = oid) (docs c) of
        None \<Rightarrow> (Inr 0, c\<lparr>journal := journal c @ [DeleteWrite oid]\<rparr>)
      | Some d \<Rightarrow>
          (Inr 1, c\<lparr>docs := remove_first (\<lambda>d. idof d = oid) (docs c),
                    journal := journal c @ [DeleteWrite oid]\<rparr>))"

section \<open>Package auth\<close>

datatype AuthType = TypeTelegram | TypeEmail

definition AttemptTTL :: Duration where
  "AttemptTTL = 5 * 60 * 1000000000"

definition MaxAttempts :: int where
  "MaxAttempts = 3"

definition CodeLength :: int where
  "CodeLength = 6"

record AuthAttempt =
  ID :: ObjectID
  IdentifierUsed :: string
  Type :: AuthType
  Code :: string
  Success :: bool
  AttemptLeft :: int
  TTL :: Duration
  CreatedAt :: Time
  UpdatedAt :: Time

record CreateTelegramCodeRequestDTO =
  TelegramUsername :: string

record ReadTelegramCodeRequestDTO =
  TelegramUsername :: string
  ID :: string
  WaitUntil :: Time

record CreateCheckTelegramCodeRequestDTO =
  ID :: string
  TelegramUsername :: string
  Code :: string

record TokenPairDTO =
  AccessToken :: string
  RefreshToken :: string

record UpdateAuthAttemptDTO =
  Success :: bool
  AttemptLeft :: "int option"

definition ToReadTelegramCodeRequestDTO :: "AuthAttempt \<Rightarrow> ReadTelegramCodeRequestDTO" where
  "ToReadTelegramCodeRequestDTO u =
     \<lparr>ReadTelegramCodeRequestDTO.TelegramUsername = AuthAttempt.IdentifierUsed u,
      ReadTelegramCodeRequestDTO.ID = Hex (AuthAttempt.ID u),
      WaitUntil = AuthAttempt.CreatedAt u + AuthAttempt.TTL u\<rparr>"

text \<open>
  \<open>utils.RandomDigits\<close>: one digit per random byte; \<open>rnd\<close> is what \<open>rand.Read\<close>
  filled in (\<open>None\<close> when it failed).
\<close>

definition digits :: string where
  "digits = ''0123456789''"

definition RandomDigits :: "nat list option \<Rightarrow> int \<Rightarrow> string" where
  "RandomDigits rnd len =
     (if len \<le> 0 then []
      else case rnd of
             None \<Rightarrow> []
           | Some b \<Rightarrow> map (\<lambda>v. digits ! (v mod length digits)) (take (nat len) b))"

text \<open>
  \<open>newID\<close> is the value of \<open>primitive.NewObjectID()\<close>; \<open>nowC\<close> and \<open>nowU\<close> are the
  two readings of the clock.
\<close>

definition ToAuthAttemptFromCreateTelegramCodeRequestDTO ::
  "ObjectID \<Rightarrow> nat list option \<Rightarrow> Time \<Rightarrow> Time \<Rightarrow> CreateTelegramCodeRequestDTO
     \<Rightarrow> AuthAttempt" where
  "ToAuthAttemptFromCreateTelegramCodeRequestDTO newID rnd nowC nowU dto =
     \<lparr>AuthAttempt.ID = newID,
      IdentifierUsed = CreateTelegramCodeRequestDTO.TelegramUsername dto,
      Type = TypeTelegram,
      AuthAttempt.Code = RandomDigits rnd CodeLength,
      AuthAttempt.Success = False,
      AuthAttempt.AttemptLeft = MaxAttempts,
      TTL = AttemptTTL,
      AuthAttempt.CreatedAt = nowC,
      AuthAttempt.UpdatedAt = nowU\<rparr>"

subsection \<open>AuthAttemptRepositoryImpl\<close>

text \<open>The document the driver writes for an attempt: its two instants as \<open>DateTime\<close>.\<close>

definition marshal_AuthAttempt :: "AuthAttempt \<Rightarrow> AuthAttempt" where
  "marshal_AuthAttempt a =
     a\<lparr>AuthAttempt.CreatedAt := DateTime (AuthAttempt.CreatedAt a),
       AuthAttempt.UpdatedAt := DateTime (AuthAttempt.UpdatedAt a)\<rparr>"

definition Create_auth ::
  "AuthAttempt \<Rightarrow> AuthAttempt collection \<Rightarrow> (error + AuthAttempt) \<times> AuthAttempt collection" where
  "Create_auth attempt c =
     (case InsertOne AuthAttempt.ID (marshal_AuthAttempt attempt) c of
        (Inl err, c') \<Rightarrow> (Inl err, c')
      | (Inr _, c') \<Rightarrow> (Inr attempt, c'))"

definition GetByID_auth :: "string \<Rightarrow> AuthAttempt collection \<Rightarrow> error + AuthAttempt" where
  "GetByID_auth id' c =
     (case ObjectIDFromHex id' of
        Inl _ \<Rightarrow> Inl ErrInvalidAuthAttemptID
      | Inr objID \<Rightarrow>
          (case FindOne (\<lambda>d. AuthAttempt.ID d = objID) c of
             Inl err \<Rightarrow> (if err = ErrNoDocuments then Inl ErrAuthAttemptNotFound else Inl err)
           | Inr attempt \<Rightarrow> Inr attempt))"

text \<open>
  The entries of the \<open>$set\<close> document that \<open>Update\<close> builds, and what each does to
  the stored attempt.
\<close>

datatype AuthSet = SetSuccess bool | SetAttemptLeft int | SetUpdatedAt Time

fun apply_AuthSet :: "AuthAttempt \<Rightarrow> AuthSet \<Rightarrow> AuthAttempt" where
  "apply_AuthSet a (SetSuccess b) = a\<lparr>AuthAttempt.Success := b\<rparr>"
| "apply_AuthSet a (SetAttemptLeft n) = a\<lparr>AuthAttempt.AttemptLeft := n\<rparr>"
| "apply_AuthSet a (SetUpdatedAt t) = a\<lparr>AuthAttempt.UpdatedAt := DateTime t\<rparr>"

definition Update_auth ::
  "Time \<Rightarrow> string \<Rightarrow> UpdateAuthAttemptDTO \<Rightarrow> AuthAttempt collection
     \<Rightarrow> (error + unit) \<times> AuthAttempt collection" where
  "Update_auth now id' dto c =
     (case ObjectIDFromHex id' of
        Inl _ \<Rightarrow> (Inl ErrInvalidAuthAttemptID, c)
      | Inr objID \<Rightarrow>
          (let update =
                 (if UpdateAuthAttemptDTO.Success dto
                  then [SetSuccess (UpdateAuthAttemptDTO.Success dto)] else [])
                 @ (case UpdateAuthAttemptDTO.AttemptLeft dto of
                      None \<Rightarrow> []
                    | Some n \<Rightarrow> [SetAttemptLeft n])
           in if length update = 0 then (Inr (), c)
              else
                (case UpdateByID AuthAttempt.ID objID
                        (\<lambda>d. foldl apply_AuthSet d (update @ [SetUpdatedAt now])) c of
                   (Inl err, c') \<Rightarrow> (Inl err, c')
                 | (Inr res, c') \<Rightarrow>
                     if MatchedCount res = 0 then (Inl ErrAuthAttemptNotFound, c')
                     else (Inr (), c'))))"

definition Delete_auth ::
  "string \<Rightarrow> AuthAttempt collection \<Rightarrow> (error + unit) \<times> AuthAttempt collection" where
  "Delete_auth id' c =
     (case ObjectIDFromHex id' of
        Inl _ \<Rightarrow> (Inl ErrInvalidAuthAttemptID, c)
      | Inr objID \<Rightarrow>
          (case DeleteOne AuthAttempt.ID objID c of
             (Inl err, c') \<Rightarrow> (Inl err, c')
           | (Inr DeletedCount, c') \<Rightarrow>
               if DeletedCount = 0 then (Inl ErrAuthAttemptNotFound, c')
               else (Inr (), c')))"

definition GetByTelegramUsername_auth ::
  "Time \<Rightarrow> string \<Rightarrow> AuthAttempt collection \<Rightarrow> error + AuthAttempt" where
  "GetByTelegramUsername_auth now telegramUsername c =
     (case FindOneSortDesc
             (\<lambda>d. IdentifierUsed d = telegramUsername
                  \<and> Type d = TypeTelegram
                  \<and> AuthAttempt.AttemptLeft d > 0
                  \<and> AuthAttempt.CreatedAt d \<ge> DateTime (now - AttemptTTL))
             AuthAttempt.CreatedAt c of
        Inl err \<Rightarrow> (if err = ErrNoDocuments then Inl ErrAuthAttemptNotFound else Inl err)
      | Inr attempt \<Rightarrow> Inr attempt)"

section \<open>Package users\<close>

record User =
  ID :: ObjectID
  TelegramUsername :: string
  Username :: string
  FirstName :: string
  LastName :: string
  Role :: string
  CreatedAt :: Time
  UpdatedAt :: Time
  DeletedAt :: "Time option"

record ReadUserDTO =
  ID :: string
  TelegramUsername :: string
  Username :: string
  FirstName :: string
  LastName :: string
  Role :: string
  CreatedAt :: timestr
  UpdatedAt :: timestr

definition ToReadUserDTO :: "User \<Rightarrow> ReadUserDTO" where
  "ToReadUserDTO u =
     \<lparr>ReadUserDTO.ID = Hex (User.ID u),
      ReadUserDTO.TelegramUsername = User.TelegramUsername u,
      ReadUserDTO.Username = User.Username u,
      ReadUserDTO.FirstName = User.FirstName u,
      ReadUserDTO.LastName = User.LastName u,
      ReadUserDTO.Role = User.Role u,
      ReadUserDTO.CreatedAt = Format_RFC3339 (User.CreatedAt u),
      ReadUserDTO.UpdatedAt = Format_RFC3339 (User.UpdatedAt u)\<rparr>"

subsection \<open>UserRepositoryImpl\<close>

definition GetByID_users :: "string \<Rightarrow> User collection \<Rightarrow> error + ReadUserDTO" where
  "GetByID_users id' c =
     (case ObjectIDFromHex id' of
        Inl _ \<Rightarrow> Inl ErrInvalidIDFormat
      | Inr objectID \<Rightarrow>
          (case FindOne (\<lambda>d. User.ID d = objectID) c of
             Inl err \<Rightarrow> (if err = ErrNoDocuments then Inl ErrUserNotFound else Inl err)
           | Inr u \<Rightarrow> Inr (ToReadUserDTO u)))"

definition GetByTelegramUsername_users :: "string \<Rightarrow> User collection \<Rightarrow> error + ReadUserDTO" where
  "GetByTelegramUsername_users telegramUsername c =
     (case FindOne (\<lambda>d. User.TelegramUsername d = telegramUsername) c of
        Inl err \<Rightarrow> (if err = ErrNoDocuments then Inl ErrUserNotFound else Inl err)
      | Inr u \<Rightarrow> Inr (ToReadUserDTO u))"

subsection \<open>UserServiceImpl\<close>

definition GetUserByTelegramUsername :: "string \<Rightarrow> User collection \<Rightarrow> error + ReadUserDTO" where
  "GetUserByTelegramUsername telegramUsername c =
     (case GetByTelegramUsername_users telegramUsername c of
        Inl err \<Rightarrow> Inl err
      | Inr user \<Rightarrow> Inr user)"

section \<open>AuthServiceImpl\<close>

text \<open>
  The fields of \<open>config.Config\<close> the service reads. \<open>utils.CreateToken\<close> signs with an
  external library and draws a fresh token id; it is the argument \<open>CreateToken\<close>.
\<close>

record Config =
  AccessTokenExpires :: Duration
  RefreshTokenExpires :: Duration
  AccessTokenSecret :: string
  RefreshTokenSecret :: string

type_synonym signer = "string \<Rightarrow> string \<Rightarrow> Duration \<Rightarrow> error + string"

definition generateTokenPair :: "Config \<Rightarrow> signer \<Rightarrow> ReadUserDTO \<Rightarrow> error + TokenPairDTO" where
  "generateTokenPair cfg CreateToken user =
     (case CreateToken (AccessTokenSecret cfg) (ReadUserDTO.ID user) (AccessTokenExpires cfg) of
        Inl err \<Rightarrow> Inl err
      | Inr accessToken \<Rightarrow>
          (case CreateToken (RefreshTokenSecret cfg) (ReadUserDTO.ID user)
                  (RefreshTokenExpires cfg) of
             Inl err \<Rightarrow> Inl err
           | Inr refreshToken \<Rightarrow>
               Inr \<lparr>AccessToken = accessToken, RefreshToken = refreshToken\<rparr>))"

definition RequestTelegramCode ::
  "Time \<Rightarrow> ObjectID \<Rightarrow> nat list option \<Rightarrow> Time \<Rightarrow> Time \<Rightarrow> CreateTelegramCodeRequestDTO
     \<Rightarrow> AuthAttempt collection
     \<Rightarrow> (error + ReadTelegramCodeRequestDTO) \<times> AuthAttempt collection" where
  "RequestTelegramCode now newID rnd nowC nowU dto c =
     (case GetByTelegramUsername_auth now (CreateTelegramCodeRequestDTO.TelegramUsername dto) c of
        Inr _ \<Rightarrow> (Inl ErrAuthAttemptAlreadyExists, c)
      | Inl _ \<Rightarrow>
          (case Create_auth (ToAuthAttemptFromCreateTelegramCodeRequestDTO newID rnd nowC nowU dto) c of
             (Inl err, c') \<Rightarrow> (Inl err, c')
           | (Inr attempt, c') \<Rightarrow> (Inr (ToReadTelegramCodeRequestDTO attempt), c')))"

text \<open>
  \<open>attempt.AttemptLeft - 1\<close> is taken only when \<open>AttemptLeft > 0\<close>, so Go's \<open>int\<close>
  does not wrap there.
\<close>

definition performCodeCheck ::
  "Time \<Rightarrow> AuthAttempt \<Rightarrow> string \<Rightarrow> AuthAttempt collection
     \<Rightarrow> (error + unit) \<times> AuthAttempt collection" where
  "performCodeCheck now attempt code c =
     (if AuthAttempt.AttemptLeft attempt \<le> 0 then (Inl ErrInvalidCode, c)
      else if AuthAttempt.Code attempt = code then
        (case Update_auth now (Hex (AuthAttempt.ID attempt))
                \<lparr>UpdateAuthAttemptDTO.Success = True,
                 UpdateAuthAttemptDTO.AttemptLeft = None\<rparr> c of
           (Inl err, c') \<Rightarrow> (Inl err, c')
         | (Inr _, c') \<Rightarrow> (Inr (), c'))
      else
        (let attemptsLeft = AuthAttempt.AttemptLeft attempt - 1 in
         if attemptsLeft = 0 then
           (case Delete_auth (Hex (AuthAttempt.ID attempt)) c of
              (Inl err, c') \<Rightarrow> (Inl err, c')
            | (Inr _, c') \<Rightarrow> (Inl ErrInvalidCode, c'))
         else
           (case Update_auth now (Hex (AuthAttempt.ID attempt))
                   \<lparr>UpdateAuthAttemptDTO.Success = False,
                    UpdateAuthAttemptDTO.AttemptLeft = Some attemptsLeft\<rparr> c of
              (Inl err, c') \<Rightarrow> (Inl err, c')
            | (Inr _, c') \<Rightarrow> (Inl ErrInvalidCode, c'))))"

definition CheckTelegramCode ::
  "Config \<Rightarrow> signer \<Rightarrow> User collection \<Rightarrow> Time \<Rightarrow> CreateCheckTelegramCodeRequestDTO
     \<Rightarrow> AuthAttempt collection \<Rightarrow> (error + TokenPairDTO) \<times> AuthAttempt collection" where
  "CheckTelegramCode cfg CreateToken users now dto c =
     (case GetByID_auth (CreateCheckTelegramCodeRequestDTO.ID dto) c of
        Inl err \<Rightarrow> (Inl err, c)
      | Inr attempt \<Rightarrow>
          if IdentifierUsed attempt \<noteq> CreateCheckTelegramCodeRequestDTO.TelegramUsername dto
          then (Inl ErrWrongTelegramUsername, c)
          else
            (case performCodeCheck now attempt (CreateCheckTelegramCodeRequestDTO.Code dto) c of
               (Inl err, c') \<Rightarrow> (Inl err, c')
             | (Inr _, c') \<Rightarrow>
                 (case GetUserByTelegramUsername
                         (CreateCheckTelegramCodeRequestDTO.TelegramUsername dto) users of
                    Inl err \<Rightarrow> (Inl err, c')
                  | Inr user \<Rightarrow>
                      (case generateTokenPair cfg CreateToken user of
                         Inl err \<Rightarrow> (Inl err, c')
                       | Inr tokenPair \<Rightarrow> (Inr tokenPair, c')))))"

section \<open>Package courses\<close>

record Course =
  ID :: ObjectID
  Title :: string
  Description :: string
  AuthorID :: ObjectID
  Tags :: "string list"
  IsPublished :: bool
  CreatedAt :: Time
  UpdatedAt :: Time
  DeletedAt :: "Time option"

record ReadCourseDTO =
  ID :: string
  Title :: string
  Description :: string
  AuthorID :: string
  Tags :: "string list"
  IsPublished :: bool
  CreatedAt :: timestr
  UpdatedAt :: timestr

record FilterCoursesDTO =
  Title :: "string option"
  Tags :: "string list"
  IsPublished :: "bool option"
  AuthorID :: "string option"

definition ToReadDTO_Course :: "Course \<Rightarrow> ReadCourseDTO" where
  "ToReadDTO_Course c =
     \<lparr>ReadCourseDTO.ID = Hex (Course.ID c),
      ReadCourseDTO.Title = Course.Title c,
      ReadCourseDTO.Description = Course.Description c,
      ReadCourseDTO.AuthorID = Hex (Course.AuthorID c),
      ReadCourseDTO.Tags = Course.Tags c,
      ReadCourseDTO.IsPublished = Course.IsPublished c,
      ReadCourseDTO.CreatedAt = Format_RFC3339 (Course.CreatedAt c),
      ReadCourseDTO.UpdatedAt = Format_RFC3339 (Course.UpdatedAt c)\<rparr>"

text \<open>
  The entries of the filter document that \<open>Find\<close> builds, and what each asks of a
  course. A soft-deleted course is one whose \<open>deleted_at\<close> field exists. The regular
  expression engine is the server's: \<open>rx p\<close> is the case-insensitive matcher of the
  pattern \<open>p\<close>, or \<open>None\<close> when the server rejects the pattern.
\<close>

type_synonym regex = "string \<Rightarrow> (string \<Rightarrow> bool) option"

datatype CourseCond =
    Course_deleted_at_absent
  | Course_title_regex string
  | Course_tags_in "string list"
  | Course_is_published bool
  | Course_author_id ObjectID

fun match_Course :: "regex \<Rightarrow> Course \<Rightarrow> CourseCond \<Rightarrow> bool" where
  "match_Course rx d Course_deleted_at_absent = (Course.DeletedAt d = None)"
| "match_Course rx d (Course_title_regex p) =
     (case rx p of None \<Rightarrow> False | Some m \<Rightarrow> m (Course.Title d))"
| "match_Course rx d (Course_tags_in ts) = list_ex (\<lambda>t. List.member ts t) (Course.Tags d)"
| "match_Course rx d (Course_is_published b) = (Course.IsPublished d = b)"
| "match_Course rx d (Course_author_id a) = (Course.AuthorID d = a)"

fun rejected_Course :: "regex \<Rightarrow> CourseCond \<Rightarrow> bool" where
  "rejected_Course rx (Course_title_regex p) = (rx p = None)"
| "rejected_Course rx _ = False"

subsection \<open>CourseRepositoryImpl\<close>

definition GetByID_courses :: "string \<Rightarrow> Course collection \<Rightarrow> error + ReadCourseDTO" where
  "GetByID_courses id' c =
     (case ObjectIDFromHex id' of
        Inl _ \<Rightarrow> Inl (ErrorsNew ''invalid course id format'')
      | Inr objectID \<Rightarrow>
          (case FindOne (\<lambda>d. Course.ID d = objectID \<and> Course.DeletedAt d = None) c of
             Inl err \<Rightarrow> (if err = ErrNoDocuments then Inl ErrCourseNotFound else Inl err)
           | Inr course \<Rightarrow> Inr (ToReadDTO_Course course)))"

definition DeleteByID_courses ::
  "Time \<Rightarrow> string \<Rightarrow> Course collection \<Rightarrow> (error + unit) \<times> Course collection" where
  "DeleteByID_courses now id' c =
     (case ObjectIDFromHex id' of
        Inl _ \<Rightarrow> (Inl (ErrorsNew ''invalid course id format''), c)
      | Inr objectID \<Rightarrow>
          (case UpdateByID Course.ID objectID (\<lambda>d. d\<lparr>Course.DeletedAt := Some (DateTime now)\<rparr>) c of
             (Inl err, c') \<Rightarrow> (Inl err, c')
           | (Inr res, c') \<Rightarrow>
               if ModifiedCount res = 0 then (Inl ErrCourseNotFound, c')
               else (Inr (), c')))"

definition Find_courses ::
  "regex \<Rightarrow> FilterCoursesDTO \<Rightarrow> Course collection \<Rightarrow> error + ReadCourseDTO list" where
  "Find_courses rx filterDTO c =
     (let filter0 = [Course_deleted_at_absent];
          filter1 = (case FilterCoursesDTO.Title filterDTO of
                       None \<Rightarrow> filter0
                     | Some t \<Rightarrow> if t \<noteq> [] then filter0 @ [Course_title_regex t] else filter0);
          filter2 = (if length (FilterCoursesDTO.Tags filterDTO) > 0
                     then filter1 @ [Course_tags_in (FilterCoursesDTO.Tags filterDTO)]
                     else filter1);
          filter3 = (case FilterCoursesDTO.IsPublished filterDTO of
                       None \<Rightarrow> filter2
                     | Some b \<Rightarrow> filter2 @ [Course_is_published b])
      in case (case FilterCoursesDTO.AuthorID filterDTO of
                 None \<Rightarrow> Inr filter3
               | Some a \<Rightarrow>
                   (case ObjectIDFromHex a of
                      Inl _ \<Rightarrow> Inl (ErrorsNew ''invalid author id format'')
                    | Inr authorID \<Rightarrow> Inr (filter3 @ [Course_author_id authorID]))) of
           Inl err \<Rightarrow> Inl err
         | Inr filter4 \<Rightarrow>
             (case (if list_ex (rejected_Course rx) filter4 then Inl ErrRegex
                    else Find (\<lambda>d. list_all (match_Course rx d) filter4) c) of
                Inl err \<Rightarrow> Inl err
              | Inr cursor \<Rightarrow> Inr (map ToReadDTO_Course cursor)))"

section \<open>Package articles\<close>

record Article =
  ID :: ObjectID
  CourseID :: ObjectID
  Title :: string
  ContentMD :: string
  ContentTxt :: string
  Order :: int
  Version :: int
  Tags :: "string list"
  IsDraft :: bool
  CreatedAt :: Time
  UpdatedAt :: Time
  DeletedAt :: "Time option"

record ReadArticleDTO =
  ID :: string
  CourseID :: string
  Title :: string
  ContentMD :: string
  ContentTxt :: string
  Order :: int
  Version :: int
  Tags :: "string list"
  IsDraft :: bool
  CreatedAt :: timestr
  UpdatedAt :: timestr

record FilterArticlesDTO =
  CourseID :: "string option"
  Title :: "string option"
  Tags :: "string list"
  IsDraft :: "bool option"
  Version :: "int option"

definition ToReadDTO_Article :: "Article \<Rightarrow> ReadArticleDTO" where
  "ToReadDTO_Article a =
     \<lparr>ReadArticleDTO.ID = Hex (Article.ID a),
      ReadArticleDTO.CourseID = Hex (Article.CourseID a),
      ReadArticleDTO.Title = Article.Title a,
      ReadArticleDTO.ContentMD = Article.ContentMD a,
      ReadArticleDTO.ContentTxt = Article.ContentTxt a,
      ReadArticleDTO.Order = Article.Order a,
      ReadArticleDTO.Version = Article.Version a,
      ReadArticleDTO.Tags = Article.Tags a,
      ReadArticleDTO.IsDraft = Article.IsDraft a,
      ReadArticleDTO.CreatedAt = Format_RFC3339 (Article.CreatedAt a),
      ReadArticleDTO.UpdatedAt = Format_RFC3339 (Article.UpdatedAt a)\<rparr>"

text \<open>The zero value of \<open>Article\<close>, which \<open>var latest Article\<close> holds until decoded into.\<close>

definition zero_Article :: Article where
  "zero_Article =
     \<lparr>Article.ID = 0, Article.CourseID = 0, Article.Title = [], Article.ContentMD = [],
      Article.ContentTxt = [], Article.Order = 0, Article.Version = 0, Article.Tags = [],
      Article.IsDraft = False, Article.CreatedAt = 0, Article.UpdatedAt = 0,
      Article.DeletedAt = None\<rparr>"

text \<open>Go's \<open>int\<close> is 64 bits wide: a sum is reduced to the signed range.\<close>

definition int64 :: "int \<Rightarrow> int" where
  "int64 x = (x + 2 ^ 63) mod 2 ^ 64 - 2 ^ 63"

datatype ArticleCond =
    Article_deleted_at_absent
  | Article_course_id ObjectID
  | Article_is_draft bool
  | Article_tags_in "string list"

fun match_Article :: "Article \<Rightarrow> ArticleCond \<Rightarrow> bool" where
  "match_Article d Article_deleted_at_absent = (Article.DeletedAt d = None)"
| "match_Article d (Article_course_id cid) = (Article.CourseID d = cid)"
| "match_Article d (Article_is_draft b) = (Article.IsDraft d = b)"
| "match_Article d (Article_tags_in ts) = list_ex (\<lambda>t. List.member ts t) (Article.Tags d)"

subsection \<open>ArticleRepositoryImpl\<close>

text \<open>The document the driver writes for an article: its instants as \<open>DateTime\<close>.\<close>

definition marshal_Article :: "Article \<Rightarrow> Article" where
  "marshal_Article a =
     a\<lparr>Article.CreatedAt := DateTime (Article.CreatedAt a),
       Article.UpdatedAt := DateTime (Article.UpdatedAt a),
       Article.DeletedAt := map_option DateTime (Article.DeletedAt a)\<rparr>"

definition GetByID_articles :: "string \<Rightarrow> Article collection \<Rightarrow> error + ReadArticleDTO" where
  "GetByID_articles id' c =
     (case ObjectIDFromHex id' of
        Inl _ \<Rightarrow> Inl (ErrorsNew ''invalid article id format'')
      | Inr objectID \<Rightarrow>
          (case FindOne (\<lambda>d. Article.ID d = objectID \<and> Article.DeletedAt d = None) c of
             Inl err \<Rightarrow> (if err = ErrNoDocuments then Inl ErrArticleNotFound else Inl err)
           | Inr a \<Rightarrow> Inr (ToReadDTO_Article a)))"

definition DeleteByID_articles ::
  "Time \<Rightarrow> string \<Rightarrow> Article collection \<Rightarrow> (error + unit) \<times> Article collection" where
  "DeleteByID_articles now id' c =
     (case ObjectIDFromHex id' of
        Inl _ \<Rightarrow> (Inl (ErrorsNew ''invalid article id format''), c)
      | Inr objectID \<Rightarrow>
          (case UpdateByID Article.ID objectID (\<lambda>d. d\<lparr>Article.DeletedAt := Some (DateTime now)\<rparr>) c of
             (Inl err, c') \<Rightarrow> (Inl err, c')
           | (Inr res, c') \<Rightarrow>
               if ModifiedCount res = 0 then (Inl ErrArticleNotFound, c')
               else (Inr (), c')))"

definition Find_articles ::
  "FilterArticlesDTO \<Rightarrow> Article collection \<Rightarrow> error + ReadArticleDTO list" where
  "Find_articles filterDTO c =
     (let filter0 = [Article_deleted_at_absent]
      in case (case FilterArticlesDTO.CourseID filterDTO of
                 None \<Rightarrow> Inr filter0
               | Some s \<Rightarrow>
                   (case ObjectIDFromHex s of
                      Inl _ \<Rightarrow> Inl (ErrorsNew ''invalid course id format'')
                    | Inr cid \<Rightarrow> Inr (filter0 @ [Article_course_id cid]))) of
           Inl err \<Rightarrow> Inl err
         | Inr filter1 \<Rightarrow>
             (let filter2 = (case FilterArticlesDTO.IsDraft filterDTO of
                               None \<Rightarrow> filter1
                             | Some b \<Rightarrow> filter1 @ [Article_is_draft b]);
                  filter3 = (if length (FilterArticlesDTO.Tags filterDTO) > 0
                             then filter2 @ [Article_tags_in (FilterArticlesDTO.Tags filterDTO)]
                             else filter2)
              in case Find (\<lambda>d. list_all (match_Article d) filter3) c of
                   Inl err \<Rightarrow> Inl err
                 | Inr cursor \<Rightarrow> Inr (map ToReadDTO_Article cursor)))"

text \<open>
  \<open>newID\<close> is the value of \<open>primitive.NewObjectID()\<close> and \<open>now\<close> the reading of the
  clock. When no sibling is found, \<open>latest\<close> stays the zero article.
\<close>

definition CloneWithIncrementedVersion ::
  "ObjectID \<Rightarrow> Time \<Rightarrow> string \<Rightarrow> Article collection
     \<Rightarrow> (error + ReadArticleDTO) \<times> Article collection" where
  "CloneWithIncrementedVersion newID now id' c =
     (case ObjectIDFromHex id' of
        Inl _ \<Rightarrow> (Inl (ErrorsNew ''invalid article id format''), c)
      | Inr objectID \<Rightarrow>
          (case FindOne (\<lambda>d. Article.ID d = objectID \<and> Article.DeletedAt d = None) c of
             Inl err \<Rightarrow>
               (if err = ErrNoDocuments then (Inl ErrArticleNotFound, c) else (Inl err, c))
           | Inr original \<Rightarrow>
               (case (case FindOneSortDesc
                             (\<lambda>d. Article.CourseID d = Article.CourseID original
                                  \<and> Article.Title d = Article.Title original
                                  \<and> Article.DeletedAt d = None)
                             Article.Version c of
                        Inl err \<Rightarrow> (if err \<noteq> ErrNoDocuments then Inl err else Inr zero_Article)
                      | Inr latest \<Rightarrow> Inr latest) of
                  Inl err \<Rightarrow> (Inl err, c)
                | Inr latest \<Rightarrow>
                    (let clone = original
                           \<lparr>Article.ID := newID,
                            Article.Version :=
                              int64 (max (Article.Version original) (Article.Version latest) + 1),
                            Article.CreatedAt := now,
                            Article.UpdatedAt := now,
                            Article.DeletedAt := None\<rparr>
                     in case InsertOne Article.ID (marshal_Article clone) c of
                          (Inl err, c') \<Rightarrow> (Inl err, c')
                        | (Inr _, c') \<Rightarrow> (Inr (ToReadDTO_Article clone), c')))))"

section \<open>The store after each write of the verification flow\<close>

text \<open>
  Names for the three collections a verification can leave behind: the attempt
  marked successful, the attempt with a new \<open>attempt_left\<close>, and the attempt
  removed; each with the command added to the journal.
\<close>

definition marked :: "Time \<Rightarrow> ObjectID \<Rightarrow> AuthAttempt collection \<Rightarrow> AuthAttempt collection" where
  "marked now oid c =
     c\<lparr>docs := update_first (\<lambda>d. AuthAttempt.ID d = oid)
                 (\<lambda>d. d\<lparr>AuthAttempt.Success := True, AuthAttempt.UpdatedAt := DateTime now\<rparr>) (docs c),
       journal := journal c @ [UpdateWrite oid]\<rparr>"

definition decremented ::
  "Time \<Rightarrow> ObjectID \<Rightarrow> int \<Rightarrow> AuthAttempt collection \<Rightarrow> AuthAttempt collection" where
  "decremented now oid n c =
     c\<lparr>docs := update_first (\<lambda>d. AuthAttempt.ID d = oid)
                 (\<lambda>d. d\<lparr>AuthAttempt.AttemptLeft := n, AuthAttempt.UpdatedAt := DateTime now\<rparr>) (docs c),
       journal := journal c @ [UpdateWrite oid]\<rparr>"

definition dropped :: "ObjectID \<Rightarrow> AuthAttempt collection \<Rightarrow> AuthAttempt collection" where
  "dropped oid c =
     c\<lparr>docs := remove_first (\<lambda>d. AuthAttempt.ID d = oid) (docs c),
       journal := journal c @ [DeleteWrite oid]\<rparr>"

text \<open>A sequence of \<open>Update\<close> calls, each with its clock reading, id and DTO.\<close>

fun Update_calls ::
  "(Time \<times> string \<times> UpdateAuthAttemptDTO) list \<Rightarrow> AuthAttempt collection
     \<Rightarrow> AuthAttempt collection" where
  "Update_calls [] c = c"
| "Update_calls ((now, id', dto) # calls) c = Update_calls calls (snd (Update_auth now id' dto c))"

section \<open>Sample data\<close>

text \<open>
  Documents, requests and collections in the style of the repository's tests, on
  which the results below are evaluated.
\<close>

definition attempt0 :: AuthAttempt where
  "attempt0 =
     \<lparr>AuthAttempt.ID = 1, IdentifierUsed = ''user1'', Type = TypeTelegram,
      AuthAttempt.Code = ''123456'', AuthAttempt.Success = False,
      AuthAttempt.AttemptLeft = 3, TTL = AttemptTTL,
      AuthAttempt.CreatedAt = 1000000000, AuthAttempt.UpdatedAt = 1000000000\<rparr>"

definition store_of :: "AuthAttempt \<Rightarrow> AuthAttempt collection" where
  "store_of a = \<lparr>docs = [a], journal = []\<rparr>"

definition id0 :: string where
  "id0 = ''000000000000000000000001''"

definition check0 :: "string \<Rightarrow> string \<Rightarrow> CreateCheckTelegramCodeRequestDTO" where
  "check0 u code =
     \<lparr>CreateCheckTelegramCodeRequestDTO.ID = id0,
      CreateCheckTelegramCodeRequestDTO.TelegramUsername = u,
      CreateCheckTelegramCodeRequestDTO.Code = code\<rparr>"

definition cfg0 :: Config where
  "cfg0 = \<lparr>AccessTokenExpires = 3600, RefreshTokenExpires = 86400,
            AccessTokenSecret = ''a'', RefreshTokenSecret = ''r''\<rparr>"

definition sign0 :: signer where
  "sign0 secret userId exp = Inr (secret @ userId)"

definition users0 :: "User collection" where
  "users0 = \<lparr>docs = [], journal = []\<rparr>"

definition attempt_with :: "bool \<Rightarrow> int \<Rightarrow> AuthAttempt" where
  "attempt_with s n = attempt0\<lparr>AuthAttempt.Success := s, AuthAttempt.AttemptLeft := n\<rparr>"



definition course0 :: Course where
  "course0 =
     \<lparr>Course.ID = 1, Course.Title = ''Golang Basics'', Course.Description = ''Intro to Go'',
      Course.AuthorID = 9, Course.Tags = [''go''], Course.IsPublished = True,
      Course.CreatedAt = 1000000000, Course.UpdatedAt = 1000000000, Course.DeletedAt = None\<rparr>"

definition article0 :: Article where
  "article0 =
     \<lparr>Article.ID = 1, Article.CourseID = 7, Article.Title = ''Intro to Markdown'',
      Article.ContentMD = ''# Markdown'', Article.ContentTxt = ''Markdown'',
      Article.Order = 1, Article.Version = 1, Article.Tags = [''markdown''],
      Article.IsDraft = False, Article.CreatedAt = 1000000000, Article.UpdatedAt = 1000000000,
      Article.DeletedAt = None\<rparr>"

definition user0 :: User where
  "user0 =
     \<lparr>User.ID = 1, User.TelegramUsername = ''user1'', User.Username = ''tobedeleted'',
      User.FirstName = ''Gone'', User.LastName = ''Soon'', User.Role = ''student'',
      User.CreatedAt = 1000000000, User.UpdatedAt = 1000000000, User.DeletedAt = Some 1500000000\<rparr>"

definition holding :: "'d list \<Rightarrow> 'd collection" where
  "holding ds = \<lparr>docs = ds, journal = []\<rparr>"

definition any_course :: FilterCoursesDTO where
  "any_course = \<lparr>FilterCoursesDTO.Title = None, FilterCoursesDTO.Tags = [],
                 FilterCoursesDTO.IsPublished = None, FilterCoursesDTO.AuthorID = None\<rparr>"

definition any_article :: FilterArticlesDTO where
  "any_article = \<lparr>FilterArticlesDTO.CourseID = None, FilterArticlesDTO.Title = None,
                  FilterArticlesDTO.Tags = [], FilterArticlesDTO.IsDraft = None,
                  FilterArticlesDTO.Version = None\<rparr>"

definition rx0 :: regex where
  "rx0 p = Some (\<lambda>s. True)"

definition deleted_course :: Course where
  "deleted_course = course0\<lparr>Course.DeletedAt := Some 1500000000\<rparr>"

definition other_course :: Course where
  "other_course = course0\<lparr>Course.ID := 2\<rparr>"

definition deleted_article :: Article where
  "deleted_article = article0\<lparr>Article.DeletedAt := Some 1500000000\<rparr>"

definition article_v2 :: Article where
  "article_v2 = article0\<lparr>Article.ID := 2, Article.Version := 2\<rparr>"

section \<open>Facts about the hexadecimal form\<close>

lemma hextable_all: "list_all (\<lambda>d. fromHexChar (hextable ! d) = Some d) [0..<16]"
  by code_simp

lemma fromHexChar_hextable: "d < 16 \<Longrightarrow> fromHexChar (hextable ! d) = Some d"
  using hextable_all by (simp add: list_all_iff)

lemma those_map_Some:
  "(\<And>x. x \<in> set xs \<Longrightarrow> f x = Some (g x)) \<Longrightarrow> those (map f xs) = Some (map g xs)"
  by (induction xs) simp_all

lemma digits_value:
  "k \<le> K \<Longrightarrow>
     foldl (\<lambda>a d. 16 * a + d) 0 (map (\<lambda>i. (n div 16 ^ (K - Suc i)) mod 16) [0..<k])
       = (n div 16 ^ (K - k)) mod 16 ^ k" for n :: nat
proof (induction k)
  case 0
  then show ?case by simp
next
  case (Suc k)
  then have IH:
    "foldl (\<lambda>a d. 16 * a + d) 0 (map (\<lambda>i. (n div 16 ^ (K - Suc i)) mod 16) [0..<k])
       = (n div 16 ^ (K - k)) mod 16 ^ k"
    by simp
  define m where "m = n div 16 ^ (K - Suc k)"
  have K: "K - k = Suc (K - Suc k)"
    using Suc.prems by simp
  have a: "n div 16 ^ (K - k) = m div 16"
    unfolding K m_def by (simp add: power_Suc2 div_mult2_eq del: power_Suc)
  have c: "m mod 16 ^ Suc k = 16 * ((m div 16) mod 16 ^ k) + m mod 16"
    by (simp add: mod_mult2_eq)
  have "foldl (\<lambda>a d. 16 * a + d) 0 (map (\<lambda>i. (n div 16 ^ (K - Suc i)) mod 16) [0..<Suc k])
      = 16 * ((n div 16 ^ (K - k)) mod 16 ^ k) + (n div 16 ^ (K - Suc k)) mod 16"
    by (simp add: IH)
  also have "\<dots> = 16 * ((m div 16) mod 16 ^ k) + m mod 16"
    by (simp only: a m_def)
  also have "\<dots> = m mod 16 ^ Suc k"
    by (rule c [symmetric])
  finally show ?case
    by (simp only: m_def)
qed

lemma Hex_length: "length (Hex oid) = 24"
  by (simp add: Hex_def)

lemma Hex_digits:
  "those (map fromHexChar (Hex oid)) = Some (map (hexnibble (unat oid)) [0..<24])"
  unfolding Hex_def map_map comp_def
  by (rule those_map_Some) (simp add: fromHexChar_hextable hexnibble_def)

lemma Hex_value:
  "foldl (\<lambda>a d. 16 * a + d) 0 (map (hexnibble (unat oid)) [0..<24]) = unat oid"
  for oid :: ObjectID
proof -
  have v: "foldl (\<lambda>a d. 16 * a + d) 0 (map (hexnibble (unat oid)) [0..<24])
             = unat oid mod 16 ^ 24"
    using digits_value [of 24 24 "unat oid"] unfolding hexnibble_def [abs_def] by simp
  have "unat oid < 16 ^ 24"
    using unsigned_less [of oid] by simp
  then have "unat oid mod 16 ^ 24 = unat oid"
    by (rule mod_less)
  with v show ?thesis
    by (simp only:)
qed

lemma ObjectIDFromHex_Hex: "ObjectIDFromHex (Hex oid) = Inr oid"
  using Hex_length [of oid] Hex_digits [of oid] Hex_value [of oid]
  by (simp add: ObjectIDFromHex_def)

lemma Hex_inject: "Hex a = Hex b \<Longrightarrow> a = b"
  by (metis ObjectIDFromHex_Hex sum.inject(2))

section \<open>Facts about the collection\<close>

lemma find_id_Some:
  "find (\<lambda>d. idof d = oid) ds = Some a \<Longrightarrow> idof a = oid \<and> a \<in> set ds"
  by (induction ds) (auto split: if_splits)

lemma find_id_None: "find (\<lambda>d. idof d = oid) ds = None \<longleftrightarrow> oid \<notin> set (map idof ds)"
  by (induction ds) auto

lemma find_update_first:
  "(\<And>d. idof (f d) = idof d) \<Longrightarrow>
     find (\<lambda>d. idof d = oid) (update_first (\<lambda>d. idof d = oid) f ds)
       = map_option f (find (\<lambda>d. idof d = oid) ds)"
  by (induction ds) auto

lemma map_id_update_first:
  "(\<And>d. idof (f d) = idof d) \<Longrightarrow> map idof (update_first p f ds) = map idof ds"
  by (induction ds) auto

lemma length_update_first: "length (update_first p f ds) = length ds"
  by (induction ds) auto

lemma set_remove_first: "set (remove_first p ds) \<subseteq> set ds"
  by (induction ds) auto

lemma remove_first_gone:
  "distinct (map idof ds) \<Longrightarrow> oid \<notin> set (map idof (remove_first (\<lambda>d. idof d = oid) ds))"
  by (induction ds) auto

lemma distinct_remove_first:
  "distinct (map idof ds) \<Longrightarrow> distinct (map idof (remove_first p ds))"
proof (induction ds)
  case Nil
  then show ?case by simp
next
  case (Cons d ds)
  then show ?case
    using set_remove_first [of p ds] by auto
qed

section \<open>The auth repository on a stored attempt\<close>

lemma FindOne_id_Some:
  "find (\<lambda>d. idof d = oid) (docs c) = Some a \<Longrightarrow> FindOne (\<lambda>d. idof d = oid) c = Inr a"
  by (simp add: FindOne_def)

lemma GetByID_auth_Inr:
  "GetByID_auth s c = Inr a \<Longrightarrow>
     ObjectIDFromHex s = Inr (AuthAttempt.ID a)
       \<and> find (\<lambda>d. AuthAttempt.ID d = AuthAttempt.ID a) (docs c) = Some a"
  by (auto simp add: GetByID_auth_def FindOne_def dest: find_id_Some
      split: sum.splits option.splits if_splits)

lemma GetByID_auth_find:
  "ObjectIDFromHex s = Inr oid \<Longrightarrow>
     GetByID_auth s c =
       (case find (\<lambda>d. AuthAttempt.ID d = oid) (docs c) of
          None \<Rightarrow> Inl ErrAuthAttemptNotFound
        | Some a \<Rightarrow> Inr a)"
  by (simp add: GetByID_auth_def FindOne_def split: option.splits)

lemma Update_auth_success:
  "find (\<lambda>d. AuthAttempt.ID d = oid) (docs c) = Some a \<Longrightarrow>
     Update_auth now (Hex oid)
         \<lparr>UpdateAuthAttemptDTO.Success = True, UpdateAuthAttemptDTO.AttemptLeft = None\<rparr> c
       = (Inr (),
          c\<lparr>docs := update_first (\<lambda>d. AuthAttempt.ID d = oid)
                      (\<lambda>d. d\<lparr>AuthAttempt.Success := True, AuthAttempt.UpdatedAt := DateTime now\<rparr>) (docs c),
            journal := journal c @ [UpdateWrite oid]\<rparr>)"
  by (simp add: Update_auth_def ObjectIDFromHex_Hex UpdateByID_def)

lemma Update_auth_decrement:
  "find (\<lambda>d. AuthAttempt.ID d = oid) (docs c) = Some a \<Longrightarrow>
     Update_auth now (Hex oid)
         \<lparr>UpdateAuthAttemptDTO.Success = False, UpdateAuthAttemptDTO.AttemptLeft = Some n\<rparr> c
       = (Inr (),
          c\<lparr>docs := update_first (\<lambda>d. AuthAttempt.ID d = oid)
                      (\<lambda>d. d\<lparr>AuthAttempt.AttemptLeft := n, AuthAttempt.UpdatedAt := DateTime now\<rparr>) (docs c),
            journal := journal c @ [UpdateWrite oid]\<rparr>)"
  by (simp add: Update_auth_def ObjectIDFromHex_Hex UpdateByID_def)

lemma Delete_auth_found:
  "find (\<lambda>d. AuthAttempt.ID d = oid) (docs c) = Some a \<Longrightarrow>
     Delete_auth (Hex oid) c
       = (Inr (),
          c\<lparr>docs := remove_first (\<lambda>d. AuthAttempt.ID d = oid) (docs c),
            journal := journal c @ [DeleteWrite oid]\<rparr>)"
  by (simp add: Delete_auth_def ObjectIDFromHex_Hex DeleteOne_def)

section \<open>The four branches of performCodeCheck\<close>

lemma performCodeCheck_cases:
  assumes "find (\<lambda>d. AuthAttempt.ID d = AuthAttempt.ID a) (docs c) = Some a'"
  shows "performCodeCheck now a code c =
     (if AuthAttempt.AttemptLeft a \<le> 0 then (Inl ErrInvalidCode, c)
      else if AuthAttempt.Code a = code then (Inr (), marked now (AuthAttempt.ID a) c)
      else if AuthAttempt.AttemptLeft a = 1 then (Inl ErrInvalidCode, dropped (AuthAttempt.ID a) c)
      else (Inl ErrInvalidCode,
            decremented now (AuthAttempt.ID a) (AuthAttempt.AttemptLeft a - 1) c))"
  using assms
  by (simp add: performCodeCheck_def Update_auth_success Update_auth_decrement
      Delete_auth_found marked_def decremented_def dropped_def Let_def)

lemma CheckTelegramCode_store:
  assumes "GetByID_auth (CreateCheckTelegramCodeRequestDTO.ID dto) c = Inr a"
  shows "snd (CheckTelegramCode cfg sign users now dto c) =
     (if IdentifierUsed a \<noteq> CreateCheckTelegramCodeRequestDTO.TelegramUsername dto
         \<or> AuthAttempt.AttemptLeft a \<le> 0 then c
      else if AuthAttempt.Code a = CreateCheckTelegramCodeRequestDTO.Code dto
        then marked now (AuthAttempt.ID a) c
      else if AuthAttempt.AttemptLeft a = 1 then dropped (AuthAttempt.ID a) c
      else decremented now (AuthAttempt.ID a) (AuthAttempt.AttemptLeft a - 1) c)"
proof -
  have f: "find (\<lambda>d. AuthAttempt.ID d = AuthAttempt.ID a) (docs c) = Some a"
    using GetByID_auth_Inr [OF assms] by simp
  show ?thesis
    by (simp add: CheckTelegramCode_def assms performCodeCheck_cases [OF f]
        split: sum.splits)
qed

lemma CheckTelegramCode_wrong_code:
  assumes "GetByID_auth (CreateCheckTelegramCodeRequestDTO.ID dto) c = Inr a"
    and "IdentifierUsed a = CreateCheckTelegramCodeRequestDTO.TelegramUsername dto"
    and "AuthAttempt.Code a \<noteq> CreateCheckTelegramCodeRequestDTO.Code dto"
  shows "fst (CheckTelegramCode cfg sign users now dto c) = Inl ErrInvalidCode"
proof -
  have f: "find (\<lambda>d. AuthAttempt.ID d = AuthAttempt.ID a) (docs c) = Some a"
    using GetByID_auth_Inr [OF assms(1)] by simp
  show ?thesis
    using assms(2,3)
    by (simp add: CheckTelegramCode_def assms(1) performCodeCheck_cases [OF f])
qed


section \<open>Code verification: writes, outcomes and the success flag\<close>

lemma id0_parses: "ObjectIDFromHex id0 = Inr 1"
  by (simp add: id0_def ObjectIDFromHex_def fromHexChar_def)

lemma GetByID_store_of: "AuthAttempt.ID a = 1 \<Longrightarrow> GetByID_auth id0 (store_of a) = Inr a"
  by (simp add: GetByID_auth_find [OF id0_parses] store_of_def)

text \<open>
  Claim C2, as amended. Once the attempt has been fetched by id, \<open>CheckTelegramCode\<close>
  sends at most one write command to the auth-attempt collection: none when the
  identifier does not match or when \<open>attemptLeft \<le> 0\<close>, one \<open>UpdateOne\<close> on a correct
  code, and on a wrong code one \<open>DeleteOne\<close> (when \<open>attemptLeft = 1\<close>) or one
  \<open>UpdateOne\<close> (otherwise).
\<close>

theorem CheckTelegramCode_writes:
  assumes "GetByID_auth (CreateCheckTelegramCodeRequestDTO.ID dto) c = Inr a"
  shows "journal (snd (CheckTelegramCode cfg sign users now dto c)) =
     journal c @
       (if IdentifierUsed a \<noteq> CreateCheckTelegramCodeRequestDTO.TelegramUsername dto
           \<or> AuthAttempt.AttemptLeft a \<le> 0 then []
        else if AuthAttempt.Code a = CreateCheckTelegramCodeRequestDTO.Code dto
          then [UpdateWrite (AuthAttempt.ID a)]
        else if AuthAttempt.AttemptLeft a = 1 then [DeleteWrite (AuthAttempt.ID a)]
        else [UpdateWrite (AuthAttempt.ID a)])"
  by (simp add: CheckTelegramCode_store [OF assms] marked_def dropped_def decremented_def)

theorem CheckTelegramCode_writes_witness:
  "GetByID_auth (CreateCheckTelegramCodeRequestDTO.ID (check0 ''user1'' ''123456''))
      (store_of attempt0) = Inr attempt0
   \<and> journal (snd (CheckTelegramCode cfg0 sign0 users0 2000000000 (check0 ''user1'' ''123456'')
        (store_of attempt0))) = [UpdateWrite 1]"
proof -
  have g: "GetByID_auth (CreateCheckTelegramCodeRequestDTO.ID (check0 ''user1'' ''123456''))
      (store_of attempt0) = Inr attempt0"
    by (simp add: check0_def GetByID_store_of attempt0_def)
  show ?thesis
    using g CheckTelegramCode_writes [OF g, of cfg0 sign0 users0 2000000000]
    by (simp add: check0_def attempt0_def store_of_def)
qed

text \<open>
  Claim C2 as stated asks for exactly one write on every branch after the fetch,
  the identifier-mismatch branch included. With the attempt of \<open>user1\<close> stored and
  the identifier \<open>mallory\<close> submitted, the attempt is fetched, the call fails with
  \<open>ErrWrongTelegramUsername\<close>, and the collection, whose journal is empty, is
  returned as it was: no write at all.
\<close>

theorem mismatch_writes_nothing:
  "GetByID_auth (CreateCheckTelegramCodeRequestDTO.ID (check0 ''mallory'' ''123456''))
      (store_of attempt0) = Inr attempt0
   \<and> CheckTelegramCode cfg0 sign0 users0 2000000000 (check0 ''mallory'' ''123456'')
        (store_of attempt0) = (Inl ErrWrongTelegramUsername, store_of attempt0)
   \<and> journal (store_of attempt0) = []"
  by (simp add: CheckTelegramCode_def check0_def GetByID_store_of attempt0_def)
    (simp add: store_of_def)

lemma GetByID_auth_after:
  assumes "GetByID_auth s c = Inr a"
    and "\<And>d. AuthAttempt.ID (f d) = AuthAttempt.ID d"
    and "docs c' = update_first (\<lambda>d. AuthAttempt.ID d = AuthAttempt.ID a) f (docs c)"
  shows "GetByID_auth s c' = Inr (f a)"
proof -
  have p: "ObjectIDFromHex s = Inr (AuthAttempt.ID a)"
    and f: "find (\<lambda>d. AuthAttempt.ID d = AuthAttempt.ID a) (docs c) = Some a"
    using GetByID_auth_Inr [OF assms(1)] by simp_all
  have "find (\<lambda>d. AuthAttempt.ID d = AuthAttempt.ID a) (docs c') = Some (f a)"
    unfolding assms(3) using find_update_first [of AuthAttempt.ID f "AuthAttempt.ID a" "docs c"]
    by (simp add: assms(2) f)
  then show ?thesis
    by (simp add: GetByID_auth_find [OF p])
qed

lemma GetByID_auth_marked:
  "GetByID_auth s c = Inr a \<Longrightarrow>
     GetByID_auth s (marked now (AuthAttempt.ID a) c)
       = Inr (a\<lparr>AuthAttempt.Success := True, AuthAttempt.UpdatedAt := DateTime now\<rparr>)"
  by (rule GetByID_auth_after [where c = c]) (simp_all add: marked_def)

lemma GetByID_auth_decremented:
  "GetByID_auth s c = Inr a \<Longrightarrow>
     GetByID_auth s (decremented now (AuthAttempt.ID a) n c)
       = Inr (a\<lparr>AuthAttempt.AttemptLeft := n, AuthAttempt.UpdatedAt := DateTime now\<rparr>)"
  by (rule GetByID_auth_after [where c = c]) (simp_all add: decremented_def)

lemma GetByID_auth_dropped:
  assumes "GetByID_auth s c = Inr a" and "distinct (ids AuthAttempt.ID c)"
  shows "GetByID_auth s (dropped (AuthAttempt.ID a) c) = Inl ErrAuthAttemptNotFound"
    and "AuthAttempt.ID a \<notin> set (ids AuthAttempt.ID (dropped (AuthAttempt.ID a) c))"
proof -
  have p: "ObjectIDFromHex s = Inr (AuthAttempt.ID a)"
    using GetByID_auth_Inr [OF assms(1)] by simp
  show gone: "AuthAttempt.ID a \<notin> set (ids AuthAttempt.ID (dropped (AuthAttempt.ID a) c))"
    using assms(2) remove_first_gone [of AuthAttempt.ID "docs c" "AuthAttempt.ID a"]
    by (simp add: ids_def dropped_def)
  then have "find (\<lambda>d. AuthAttempt.ID d = AuthAttempt.ID a)
      (docs (dropped (AuthAttempt.ID a) c)) = None"
    by (simp add: find_id_None ids_def)
  then show "GetByID_auth s (dropped (AuthAttempt.ID a) c) = Inl ErrAuthAttemptNotFound"
    by (simp add: GetByID_auth_find [OF p])
qed

lemma CheckTelegramCode_not_found:
  "GetByID_auth (CreateCheckTelegramCodeRequestDTO.ID dto) c = Inl e \<Longrightarrow>
     CheckTelegramCode cfg sign users now dto c = (Inl e, c)"
  by (simp add: CheckTelegramCode_def)

text \<open>
  Claim C4. With a matching identifier and a wrong code: when \<open>attemptLeft = 1\<close> the
  call fails with \<open>ErrInvalidCode\<close>, the attempt is no longer stored, and every later
  \<open>CheckTelegramCode\<close> against the same id fails with \<open>ErrAuthAttemptNotFound\<close>; when
  \<open>attemptLeft > 1\<close> the call fails with \<open>ErrInvalidCode\<close> too and the stored attempt
  has \<open>attemptLeft\<close> decremented by one. The collection has pairwise different
  \<open>_id\<close>, as every collection does.
\<close>

theorem wrong_code_outcome:
  assumes "distinct (ids AuthAttempt.ID c)"
    and "GetByID_auth (CreateCheckTelegramCodeRequestDTO.ID dto) c = Inr a"
    and "IdentifierUsed a = CreateCheckTelegramCodeRequestDTO.TelegramUsername dto"
    and "AuthAttempt.Code a \<noteq> CreateCheckTelegramCodeRequestDTO.Code dto"
  shows "(AuthAttempt.AttemptLeft a = 1 \<longrightarrow>
            fst (CheckTelegramCode cfg sign users now dto c) = Inl ErrInvalidCode
          \<and> AuthAttempt.ID a \<notin>
              set (ids AuthAttempt.ID (snd (CheckTelegramCode cfg sign users now dto c)))
          \<and> (\<forall>cfg' sign' users' now' dto'.
                CreateCheckTelegramCodeRequestDTO.ID dto' = CreateCheckTelegramCodeRequestDTO.ID dto
                \<longrightarrow> fst (CheckTelegramCode cfg' sign' users' now' dto'
                          (snd (CheckTelegramCode cfg sign users now dto c)))
                      = Inl ErrAuthAttemptNotFound))
       \<and> (AuthAttempt.AttemptLeft a > 1 \<longrightarrow>
            fst (CheckTelegramCode cfg sign users now dto c) = Inl ErrInvalidCode
          \<and> GetByID_auth (CreateCheckTelegramCodeRequestDTO.ID dto)
                (snd (CheckTelegramCode cfg sign users now dto c))
              = Inr (a\<lparr>AuthAttempt.AttemptLeft := AuthAttempt.AttemptLeft a - 1,
                       AuthAttempt.UpdatedAt := DateTime now\<rparr>))"
proof -
  let ?c' = "snd (CheckTelegramCode cfg sign users now dto c)"
  have r: "fst (CheckTelegramCode cfg sign users now dto c) = Inl ErrInvalidCode"
    by (rule CheckTelegramCode_wrong_code [OF assms(2,3,4)])
  have s: "?c' =
     (if AuthAttempt.AttemptLeft a \<le> 0 then c
      else if AuthAttempt.AttemptLeft a = 1 then dropped (AuthAttempt.ID a) c
      else decremented now (AuthAttempt.ID a) (AuthAttempt.AttemptLeft a - 1) c)"
    using assms(3,4) by (simp add: CheckTelegramCode_store [OF assms(2)])
  have one: "AuthAttempt.ID a \<notin> set (ids AuthAttempt.ID ?c')
      \<and> (\<forall>cfg' sign' users' now' dto'.
            CreateCheckTelegramCodeRequestDTO.ID dto' = CreateCheckTelegramCodeRequestDTO.ID dto
            \<longrightarrow> fst (CheckTelegramCode cfg' sign' users' now' dto' ?c')
                  = Inl ErrAuthAttemptNotFound)"
    if "AuthAttempt.AttemptLeft a = 1"
  proof -
    have c': "?c' = dropped (AuthAttempt.ID a) c"
      using s that by simp
    show ?thesis
      unfolding c'
      using GetByID_auth_dropped [OF assms(2,1)]
      by (simp add: CheckTelegramCode_not_found)
  qed
  have more: "GetByID_auth (CreateCheckTelegramCodeRequestDTO.ID dto) ?c'
      = Inr (a\<lparr>AuthAttempt.AttemptLeft := AuthAttempt.AttemptLeft a - 1,
               AuthAttempt.UpdatedAt := DateTime now\<rparr>)"
    if "AuthAttempt.AttemptLeft a > 1"
  proof -
    have c': "?c' = decremented now (AuthAttempt.ID a) (AuthAttempt.AttemptLeft a - 1) c"
      using s that by simp
    show ?thesis
      unfolding c' by (rule GetByID_auth_decremented [OF assms(2)])
  qed
  show ?thesis
    using r one more by blast
qed

text \<open>
  Claim C6. With a matching identifier, \<open>attemptLeft > 0\<close> and the correct code, the
  stored attempt afterwards is the one before with \<open>success = true\<close> (and
  \<open>updated_at\<close> refreshed): its \<open>attemptLeft\<close>, like every \<open>attemptLeft\<close> in the
  collection, is what it was.
\<close>

theorem correct_code_outcome:
  assumes "GetByID_auth (CreateCheckTelegramCodeRequestDTO.ID dto) c = Inr a"
    and "IdentifierUsed a = CreateCheckTelegramCodeRequestDTO.TelegramUsername dto"
    and "AuthAttempt.AttemptLeft a > 0"
    and "AuthAttempt.Code a = CreateCheckTelegramCodeRequestDTO.Code dto"
  shows "GetByID_auth (CreateCheckTelegramCodeRequestDTO.ID dto)
            (snd (CheckTelegramCode cfg sign users now dto c))
           = Inr (a\<lparr>AuthAttempt.Success := True, AuthAttempt.UpdatedAt := DateTime now\<rparr>)
       \<and> map AuthAttempt.AttemptLeft (docs (snd (CheckTelegramCode cfg sign users now dto c)))
           = map AuthAttempt.AttemptLeft (docs c)"
proof -
  have s: "snd (CheckTelegramCode cfg sign users now dto c) = marked now (AuthAttempt.ID a) c"
    using assms(2,3,4) by (simp add: CheckTelegramCode_store [OF assms(1)])
  have "map AuthAttempt.AttemptLeft (docs (marked now (AuthAttempt.ID a) c))
      = map AuthAttempt.AttemptLeft (docs c)"
    by (simp add: marked_def map_id_update_first)
  then show ?thesis
    unfolding s using GetByID_auth_marked [OF assms(1)] by simp
qed

lemma attempt_with_simps:
  "AuthAttempt.ID (attempt_with s n) = 1"
  "IdentifierUsed (attempt_with s n) = ''user1''"
  "AuthAttempt.Code (attempt_with s n) = ''123456''"
  "AuthAttempt.Success (attempt_with s n) = s"
  "AuthAttempt.AttemptLeft (attempt_with s n) = n"
  by (simp_all add: attempt_with_def attempt0_def)

lemma check0_simps:
  "CreateCheckTelegramCodeRequestDTO.ID (check0 u code) = id0"
  "CreateCheckTelegramCodeRequestDTO.TelegramUsername (check0 u code) = u"
  "CreateCheckTelegramCodeRequestDTO.Code (check0 u code) = code"
  by (simp_all add: check0_def)

lemma store_of_simps:
  "docs (store_of a) = [a]"
  "journal (store_of a) = []"
  "ids AuthAttempt.ID (store_of a) = [AuthAttempt.ID a]"
  by (simp_all add: store_of_def ids_def)

theorem wrong_code_outcome_witness:
  "distinct (ids AuthAttempt.ID (store_of (attempt_with False 1)))
   \<and> GetByID_auth (CreateCheckTelegramCodeRequestDTO.ID (check0 ''user1'' ''000000''))
        (store_of (attempt_with False 1)) = Inr (attempt_with False 1)
   \<and> fst (CheckTelegramCode cfg0 sign0 users0 2000000000 (check0 ''user1'' ''000000'')
        (store_of (attempt_with False 1))) = Inl ErrInvalidCode
   \<and> fst (CheckTelegramCode cfg0 sign0 users0 3000000000 (check0 ''user1'' ''123456'')
        (snd (CheckTelegramCode cfg0 sign0 users0 2000000000 (check0 ''user1'' ''000000'')
          (store_of (attempt_with False 1))))) = Inl ErrAuthAttemptNotFound
   \<and> fst (CheckTelegramCode cfg0 sign0 users0 2000000000 (check0 ''user1'' ''000000'')
        (store_of (attempt_with False 3))) = Inl ErrInvalidCode
   \<and> GetByID_auth id0
        (snd (CheckTelegramCode cfg0 sign0 users0 2000000000 (check0 ''user1'' ''000000'')
          (store_of (attempt_with False 3))))
      = Inr ((attempt_with False 3)\<lparr>AuthAttempt.AttemptLeft := 2, AuthAttempt.UpdatedAt := 2000000000\<rparr>)"
proof -
  have d: "distinct (ids AuthAttempt.ID (store_of (attempt_with False n)))" for n
    by (simp add: store_of_simps)
  have g: "GetByID_auth (CreateCheckTelegramCodeRequestDTO.ID (check0 ''user1'' ''000000''))
        (store_of (attempt_with False n)) = Inr (attempt_with False n)" for n
    by (simp add: check0_simps GetByID_store_of attempt_with_simps)
  have u: "IdentifierUsed (attempt_with False n)
      = CreateCheckTelegramCodeRequestDTO.TelegramUsername (check0 ''user1'' ''000000'')" for n
    by (simp add: check0_simps attempt_with_simps)
  have k: "AuthAttempt.Code (attempt_with False n)
      \<noteq> CreateCheckTelegramCodeRequestDTO.Code (check0 ''user1'' ''000000'')" for n
    by (simp add: check0_simps attempt_with_simps)
  note one = wrong_code_outcome [OF d g u k, of 1 cfg0 sign0 users0 2000000000]
  note three = wrong_code_outcome [OF d g u k, of 3 cfg0 sign0 users0 2000000000]
  show ?thesis
    using d [of 1] g [of 1] one three
    by (simp add: attempt_with_simps check0_simps DateTime_def)
qed

theorem correct_code_outcome_witness:
  "GetByID_auth (CreateCheckTelegramCodeRequestDTO.ID (check0 ''user1'' ''123456''))
      (store_of (attempt_with False 2)) = Inr (attempt_with False 2)
   \<and> GetByID_auth id0
        (snd (CheckTelegramCode cfg0 sign0 users0 2000000000 (check0 ''user1'' ''123456'')
          (store_of (attempt_with False 2))))
      = Inr ((attempt_with False 2)\<lparr>AuthAttempt.Success := True, AuthAttempt.UpdatedAt := 2000000000\<rparr>)
   \<and> map AuthAttempt.AttemptLeft
        (docs (snd (CheckTelegramCode cfg0 sign0 users0 2000000000 (check0 ''user1'' ''123456'')
          (store_of (attempt_with False 2))))) = [2]"
proof -
  have g: "GetByID_auth (CreateCheckTelegramCodeRequestDTO.ID (check0 ''user1'' ''123456''))
        (store_of (attempt_with False 2)) = Inr (attempt_with False 2)"
    by (simp add: check0_simps GetByID_store_of attempt_with_simps)
  have u: "IdentifierUsed (attempt_with False 2)
      = CreateCheckTelegramCodeRequestDTO.TelegramUsername (check0 ''user1'' ''123456'')"
    by (simp add: check0_simps attempt_with_simps)
  have p: "AuthAttempt.AttemptLeft (attempt_with False 2) > 0"
    by (simp add: attempt_with_simps)
  have k: "AuthAttempt.Code (attempt_with False 2)
      = CreateCheckTelegramCodeRequestDTO.Code (check0 ''user1'' ''123456'')"
    by (simp add: check0_simps attempt_with_simps)
  show ?thesis
    using g correct_code_outcome [OF g u p k, of cfg0 sign0 users0 2000000000]
    by (simp add: attempt_with_simps check0_simps store_of_simps DateTime_def)
qed

text \<open>
  Claim C3, as amended. A later \<open>CheckTelegramCode\<close> against an attempt with
  \<open>success = true\<close> never sets \<open>success\<close> back to false, and leaves the collection as
  it was when the identifier does not match or \<open>attemptLeft \<le> 0\<close>. Otherwise the
  attempt is written as any other: a correct code refreshes \<open>updated_at\<close>, a wrong
  code decrements \<open>attemptLeft\<close> or, at \<open>attemptLeft = 1\<close>, deletes the attempt.
\<close>

theorem success_is_kept:
  assumes "distinct (ids AuthAttempt.ID c)"
    and "GetByID_auth (CreateCheckTelegramCodeRequestDTO.ID dto) c = Inr a"
    and "AuthAttempt.Success a"
  shows "GetByID_auth (CreateCheckTelegramCodeRequestDTO.ID dto)
            (snd (CheckTelegramCode cfg sign users now dto c)) =
           (if IdentifierUsed a \<noteq> CreateCheckTelegramCodeRequestDTO.TelegramUsername dto
               \<or> AuthAttempt.AttemptLeft a \<le> 0 then Inr a
            else if AuthAttempt.Code a = CreateCheckTelegramCodeRequestDTO.Code dto
              then Inr (a\<lparr>AuthAttempt.UpdatedAt := DateTime now\<rparr>)
            else if AuthAttempt.AttemptLeft a = 1 then Inl ErrAuthAttemptNotFound
            else Inr (a\<lparr>AuthAttempt.AttemptLeft := AuthAttempt.AttemptLeft a - 1,
                       AuthAttempt.UpdatedAt := DateTime now\<rparr>))
       \<and> (IdentifierUsed a \<noteq> CreateCheckTelegramCodeRequestDTO.TelegramUsername dto
            \<or> AuthAttempt.AttemptLeft a \<le> 0
          \<longrightarrow> snd (CheckTelegramCode cfg sign users now dto c) = c)
       \<and> (\<forall>a'. GetByID_auth (CreateCheckTelegramCodeRequestDTO.ID dto)
                  (snd (CheckTelegramCode cfg sign users now dto c)) = Inr a'
              \<longrightarrow> AuthAttempt.Success a')"
proof -
  have t: "a\<lparr>AuthAttempt.Success := True, AuthAttempt.UpdatedAt := DateTime now\<rparr>
      = a\<lparr>AuthAttempt.UpdatedAt := DateTime now\<rparr>"
    using assms(3) by simp
  show ?thesis
    using assms(3)
    by (simp add: CheckTelegramCode_store [OF assms(2)] assms(2)
        GetByID_auth_marked [OF assms(2)] GetByID_auth_decremented [OF assms(2)]
        GetByID_auth_dropped(1) [OF assms(2,1)] t)
qed

theorem success_is_kept_witness:
  "distinct (ids AuthAttempt.ID (store_of (attempt_with True 2)))
   \<and> GetByID_auth (CreateCheckTelegramCodeRequestDTO.ID (check0 ''user1'' ''123456''))
        (store_of (attempt_with True 2)) = Inr (attempt_with True 2)
   \<and> AuthAttempt.Success (attempt_with True 2)
   \<and> GetByID_auth id0
        (snd (CheckTelegramCode cfg0 sign0 users0 2000000000 (check0 ''user1'' ''123456'')
          (store_of (attempt_with True 2))))
      = Inr ((attempt_with True 2)\<lparr>AuthAttempt.UpdatedAt := 2000000000\<rparr>)
   \<and> snd (CheckTelegramCode cfg0 sign0 users0 2000000000 (check0 ''mallory'' ''123456'')
          (store_of (attempt_with True 2))) = store_of (attempt_with True 2)"
proof -
  have d: "distinct (ids AuthAttempt.ID (store_of (attempt_with True 2)))"
    by (simp add: store_of_simps)
  have g: "GetByID_auth (CreateCheckTelegramCodeRequestDTO.ID (check0 u ''123456''))
        (store_of (attempt_with True 2)) = Inr (attempt_with True 2)" for u
    by (simp add: check0_simps GetByID_store_of attempt_with_simps)
  have s: "AuthAttempt.Success (attempt_with True 2)"
    by (simp add: attempt_with_simps)
  show ?thesis
    using d g [of "''user1''"] s
      success_is_kept [OF d g s, of "''user1''" cfg0 sign0 users0 2000000000]
      success_is_kept [OF d g s, of "''mallory''" cfg0 sign0 users0 2000000000]
    by (simp add: attempt_with_simps check0_simps DateTime_def)
qed

text \<open>
  Claim C3 as stated: no write, decrement or deletion after \<open>success = true\<close>. A wrong
  code against a successful attempt with \<open>attemptLeft = 1\<close> deletes it, and with
  \<open>attemptLeft = 3\<close> decrements it to 2.
\<close>

theorem success_not_terminal:
  "AuthAttempt.Success (attempt_with True 1)
   \<and> GetByID_auth (CreateCheckTelegramCodeRequestDTO.ID (check0 ''user1'' ''000000''))
        (store_of (attempt_with True 1)) = Inr (attempt_with True 1)
   \<and> CheckTelegramCode cfg0 sign0 users0 2000000000 (check0 ''user1'' ''000000'')
        (store_of (attempt_with True 1))
      = (Inl ErrInvalidCode, \<lparr>docs = [], journal = [DeleteWrite 1]\<rparr>)
   \<and> AuthAttempt.Success (attempt_with True 3)
   \<and> CheckTelegramCode cfg0 sign0 users0 2000000000 (check0 ''user1'' ''000000'')
        (store_of (attempt_with True 3))
      = (Inl ErrInvalidCode,
         \<lparr>docs = [(attempt_with True 3)\<lparr>AuthAttempt.AttemptLeft := 2,
                                          AuthAttempt.UpdatedAt := 2000000000\<rparr>],
          journal = [UpdateWrite 1]\<rparr>)"
proof -
  have g: "GetByID_auth (CreateCheckTelegramCodeRequestDTO.ID (check0 ''user1'' ''000000''))
        (store_of (attempt_with True n)) = Inr (attempt_with True n)" for n
    by (simp add: check0_simps GetByID_store_of attempt_with_simps)
  have r: "fst (CheckTelegramCode cfg0 sign0 users0 2000000000 (check0 ''user1'' ''000000'')
        (store_of (attempt_with True n))) = Inl ErrInvalidCode" for n
    by (rule CheckTelegramCode_wrong_code [OF g]) (simp_all add: check0_simps attempt_with_simps)
  have s1: "snd (CheckTelegramCode cfg0 sign0 users0 2000000000 (check0 ''user1'' ''000000'')
        (store_of (attempt_with True 1))) = \<lparr>docs = [], journal = [DeleteWrite 1]\<rparr>"
    unfolding CheckTelegramCode_store [OF g]
    by (simp add: check0_simps attempt_with_simps dropped_def store_of_def)
  have s3: "snd (CheckTelegramCode cfg0 sign0 users0 2000000000 (check0 ''user1'' ''000000'')
        (store_of (attempt_with True 3)))
      = \<lparr>docs = [(attempt_with True 3)\<lparr>AuthAttempt.AttemptLeft := 2,
                                          AuthAttempt.UpdatedAt := 2000000000\<rparr>],
          journal = [UpdateWrite 1]\<rparr>"
    unfolding CheckTelegramCode_store [OF g]
    by (simp add: check0_simps attempt_with_simps decremented_def store_of_def DateTime_def)
  show ?thesis
    using g [of 1] r [of 1] r [of 3] s1 s3
    by (simp add: attempt_with_simps prod_eq_iff)
qed


section \<open>Code issuance\<close>







text \<open>
  Claim C7. The issuance response holds the identifier, the attempt id and
  \<open>createdAt + ttl\<close>, and nothing else: two attempts that differ only in their code
  have the same response, and the result of \<open>RequestTelegramCode\<close> does not depend
  on the random bytes the code is drawn from.
\<close>

theorem issuance_view_hides_code:
  "ToReadTelegramCodeRequestDTO a =
     \<lparr>ReadTelegramCodeRequestDTO.TelegramUsername = IdentifierUsed a,
      ReadTelegramCodeRequestDTO.ID = Hex (AuthAttempt.ID a),
      WaitUntil = AuthAttempt.CreatedAt a + TTL a\<rparr>
   \<and> ToReadTelegramCodeRequestDTO (a\<lparr>AuthAttempt.Code := k1\<rparr>)
       = ToReadTelegramCodeRequestDTO (a\<lparr>AuthAttempt.Code := k2\<rparr>)
   \<and> fst (RequestTelegramCode now newID rnd1 nowC nowU dto c)
       = fst (RequestTelegramCode now newID rnd2 nowC nowU dto c)"
  by (simp add: ToReadTelegramCodeRequestDTO_def RequestTelegramCode_def Create_auth_def
      InsertOne_def marshal_AuthAttempt_def ToAuthAttemptFromCreateTelegramCodeRequestDTO_def
      split: sum.splits)

section \<open>The success flag under Update\<close>

lemma update_first_rel:
  "(\<And>d. R d d) \<Longrightarrow> (\<And>d. R d (f d)) \<Longrightarrow> list_all2 R ds (update_first p f ds)"
  by (induction ds) (auto simp add: list_all2_refl)

lemma Update_auth_keeps:
  "list_all2 (\<lambda>d d'. AuthAttempt.ID d' = AuthAttempt.ID d
                    \<and> (AuthAttempt.Success d \<longrightarrow> AuthAttempt.Success d'))
     (docs c) (docs (snd (Update_auth now id' dto c)))"
proof (cases "ObjectIDFromHex id'")
  case (Inl e)
  then show ?thesis
    by (simp add: Update_auth_def list_all2_refl)
next
  case (Inr oid)
  show ?thesis
  proof (cases "find (\<lambda>d. AuthAttempt.ID d = oid) (docs c)")
    case None
    then show ?thesis
      by (simp add: Update_auth_def UpdateByID_def Inr Let_def list_all2_refl)
  next
    case (Some a)
    show ?thesis
      by (cases "UpdateAuthAttemptDTO.Success dto"; cases "UpdateAuthAttemptDTO.AttemptLeft dto")
        (auto simp add: Update_auth_def UpdateByID_def Inr Some Let_def
          intro!: update_first_rel list_all2_refl)
  qed
qed

lemma Update_auth_unflagged:
  "\<not> UpdateAuthAttemptDTO.Success dto \<Longrightarrow>
     map AuthAttempt.Success (docs (snd (Update_auth now id' dto c)))
       = map AuthAttempt.Success (docs c)"
  by (auto simp add: Update_auth_def UpdateByID_def Let_def map_id_update_first
      split: sum.splits option.splits)

lemma Update_calls_keeps:
  "list_all2 (\<lambda>d d'. AuthAttempt.ID d' = AuthAttempt.ID d
                    \<and> (AuthAttempt.Success d \<longrightarrow> AuthAttempt.Success d'))
     (docs c) (docs (Update_calls calls c))"
proof (induction calls arbitrary: c)
  case Nil
  show ?case by (simp add: list_all2_refl)
next
  case (Cons call calls)
  obtain now id' dto where call: "call = (now, id', dto)"
    by (cases call)
  have "list_all2 (\<lambda>d d'. AuthAttempt.ID d' = AuthAttempt.ID d
                    \<and> (AuthAttempt.Success d \<longrightarrow> AuthAttempt.Success d'))
     (docs c) (docs (Update_calls calls (snd (Update_auth now id' dto c))))"
    by (rule list_all2_trans [OF _ Update_auth_keeps Cons.IH]) simp
  then show ?case
    by (simp add: call)
qed

text \<open>
  Claim C10. \<open>Update\<close> with \<open>Success = false\<close> in the DTO leaves every stored
  \<open>success\<close> as it is, and after any sequence of \<open>Update\<close> calls the collection has
  the same documents in the same places, each with its id, and each attempt that had
  \<open>success = true\<close> still has it.
\<close>

theorem success_monotone:
  "(\<not> UpdateAuthAttemptDTO.Success dto \<longrightarrow>
      map AuthAttempt.Success (docs (snd (Update_auth now id' dto c)))
        = map AuthAttempt.Success (docs c))
   \<and> length (docs (Update_calls calls c)) = length (docs c)
   \<and> (\<forall>i < length (docs c).
        AuthAttempt.ID (docs (Update_calls calls c) ! i) = AuthAttempt.ID (docs c ! i)
      \<and> (AuthAttempt.Success (docs c ! i)
           \<longrightarrow> AuthAttempt.Success (docs (Update_calls calls c) ! i)))"
  using Update_calls_keeps [of c calls]
  by (auto simp add: Update_auth_unflagged list_all2_conv_all_nth)

theorem success_monotone_witness:
  "AuthAttempt.Success (docs (store_of (attempt_with True 3)) ! 0)
   \<and> AuthAttempt.Success
       (docs (Update_calls
          [(2000000000, id0, \<lparr>UpdateAuthAttemptDTO.Success = False,
                         UpdateAuthAttemptDTO.AttemptLeft = Some 2\<rparr>),
           (3000000000, id0, \<lparr>UpdateAuthAttemptDTO.Success = False,
                         UpdateAuthAttemptDTO.AttemptLeft = None\<rparr>)]
          (store_of (attempt_with True 3))) ! 0)
   \<and> map AuthAttempt.Success
       (docs (snd (Update_auth 2000000000 id0
          \<lparr>UpdateAuthAttemptDTO.Success = False, UpdateAuthAttemptDTO.AttemptLeft = Some 2\<rparr>
          (store_of (attempt_with True 3))))) = [True]"
  using success_monotone [of
      "\<lparr>UpdateAuthAttemptDTO.Success = False, UpdateAuthAttemptDTO.AttemptLeft = Some 2\<rparr>"
      2000000000 id0 "store_of (attempt_with True 3)"
      "[(2000000000, id0, \<lparr>UpdateAuthAttemptDTO.Success = False,
                         UpdateAuthAttemptDTO.AttemptLeft = Some 2\<rparr>),
           (3000000000, id0, \<lparr>UpdateAuthAttemptDTO.Success = False,
                         UpdateAuthAttemptDTO.AttemptLeft = None\<rparr>)]"]
  by (simp add: store_of_simps attempt_with_simps)


section \<open>Soft deletion\<close>

lemma same_id_same_doc:
  "distinct (map idof ds) \<Longrightarrow> x \<in> set ds \<Longrightarrow> y \<in> set ds \<Longrightarrow> idof x = idof y \<Longrightarrow> x = y"
  by (meson distinct_map inj_onD)

lemma find_active_deleted:
  assumes "distinct (map idof ds)" and "d \<in> set ds" and "\<not> active d"
  shows "find (\<lambda>x. idof x = idof d \<and> active x) ds = None"
  using assms same_id_same_doc [OF assms(1) _ assms(2)]
  by (auto simp add: find_None_iff)

lemma Find_courses_active:
  assumes "Find_courses rx f c = Inr r" and "x \<in> set r"
  shows "\<exists>d \<in> set (docs c). Course.DeletedAt d = None \<and> x = ToReadDTO_Course d"
  using assms
  by (auto simp add: Find_courses_def Find_def Let_def
      split: option.splits if_splits sum.splits)

lemma Find_articles_active:
  assumes "Find_articles f c = Inr r" and "x \<in> set r"
  shows "\<exists>d \<in> set (docs c). Article.DeletedAt d = None \<and> x = ToReadDTO_Article d"
  using assms
  by (auto simp add: Find_articles_def Find_def Let_def
      split: option.splits if_splits sum.splits)

lemma GetByID_courses_deleted:
  assumes "distinct (ids Course.ID c)" and "d \<in> set (docs c)" and "Course.DeletedAt d \<noteq> None"
  shows "GetByID_courses (Hex (Course.ID d)) c = Inl ErrCourseNotFound"
  using find_active_deleted [of Course.ID "docs c" d "\<lambda>x. Course.DeletedAt x = None"] assms
  by (simp add: GetByID_courses_def ObjectIDFromHex_Hex FindOne_def ids_def)

lemma GetByID_articles_deleted:
  assumes "distinct (ids Article.ID c)" and "d \<in> set (docs c)" and "Article.DeletedAt d \<noteq> None"
  shows "GetByID_articles (Hex (Article.ID d)) c = Inl ErrArticleNotFound"
  using find_active_deleted [of Article.ID "docs c" d "\<lambda>x. Article.DeletedAt x = None"] assms
  by (simp add: GetByID_articles_def ObjectIDFromHex_Hex FindOne_def ids_def)

lemma Find_courses_deleted:
  assumes "distinct (ids Course.ID c)" and "d \<in> set (docs c)" and "Course.DeletedAt d \<noteq> None"
    and "Find_courses rx f c = Inr r"
  shows "Hex (Course.ID d) \<notin> set (map ReadCourseDTO.ID r)"
proof
  assume "Hex (Course.ID d) \<in> set (map ReadCourseDTO.ID r)"
  then obtain x where x: "x \<in> set r" "ReadCourseDTO.ID x = Hex (Course.ID d)"
    by auto
  obtain e where e: "e \<in> set (docs c)" "Course.DeletedAt e = None" "x = ToReadDTO_Course e"
    using Find_courses_active [OF assms(4) x(1)] by blast
  have "Course.ID e = Course.ID d"
    using x(2) e(3) by (simp add: ToReadDTO_Course_def Hex_inject)
  then have "e = d"
    using same_id_same_doc [of Course.ID "docs c" e d] assms(1,2) e(1) by (simp add: ids_def)
  then show False
    using e(2) assms(3) by simp
qed

lemma Find_articles_deleted:
  assumes "distinct (ids Article.ID c)" and "d \<in> set (docs c)" and "Article.DeletedAt d \<noteq> None"
    and "Find_articles f c = Inr r"
  shows "Hex (Article.ID d) \<notin> set (map ReadArticleDTO.ID r)"
proof
  assume "Hex (Article.ID d) \<in> set (map ReadArticleDTO.ID r)"
  then obtain x where x: "x \<in> set r" "ReadArticleDTO.ID x = Hex (Article.ID d)"
    by auto
  obtain e where e: "e \<in> set (docs c)" "Article.DeletedAt e = None" "x = ToReadDTO_Article e"
    using Find_articles_active [OF assms(4) x(1)] by blast
  have "Article.ID e = Article.ID d"
    using x(2) e(3) by (simp add: ToReadDTO_Article_def Hex_inject)
  then have "e = d"
    using same_id_same_doc [of Article.ID "docs c" e d] assms(1,2) e(1) by (simp add: ids_def)
  then show False
    using e(2) assms(3) by simp
qed


lemma Hex_1: "Hex 1 = id0"
  by (simp add: id0_def Hex_def hexnibble_def hextable_def upt_conv_Cons)


text \<open>
  Claim C8, as amended. In a course or article collection, a soft-deleted document
  (one whose \<open>deleted_at\<close> is set) is not found by \<open>GetByID\<close>, which fails with the
  package's not-found error, and is in no result of \<open>Find\<close>, whatever the filter
  and whatever the regular-expression matcher. The collection has pairwise
  different \<open>_id\<close>.
\<close>

theorem soft_deleted_excluded:
  "(distinct (ids Course.ID cc) \<and> d \<in> set (docs cc) \<and> Course.DeletedAt d \<noteq> None \<longrightarrow>
      GetByID_courses (Hex (Course.ID d)) cc = Inl ErrCourseNotFound
    \<and> (\<forall>rx f r. Find_courses rx f cc = Inr r
          \<longrightarrow> Hex (Course.ID d) \<notin> set (map ReadCourseDTO.ID r)))
   \<and> (distinct (ids Article.ID ac) \<and> a \<in> set (docs ac) \<and> Article.DeletedAt a \<noteq> None \<longrightarrow>
      GetByID_articles (Hex (Article.ID a)) ac = Inl ErrArticleNotFound
    \<and> (\<forall>f r. Find_articles f ac = Inr r
          \<longrightarrow> Hex (Article.ID a) \<notin> set (map ReadArticleDTO.ID r)))"
  using GetByID_courses_deleted [of cc d] Find_courses_deleted [of cc d]
    GetByID_articles_deleted [of ac a] Find_articles_deleted [of ac a]
  by blast


theorem soft_deleted_excluded_witness:
  "distinct (ids Course.ID (holding [deleted_course, other_course]))
   \<and> deleted_course \<in> set (docs (holding [deleted_course, other_course]))
   \<and> Course.DeletedAt deleted_course \<noteq> None
   \<and> GetByID_courses id0 (holding [deleted_course, other_course]) = Inl ErrCourseNotFound
   \<and> Find_courses rx0 any_course (holding [deleted_course, other_course])
       = Inr [ToReadDTO_Course other_course]
   \<and> id0 \<notin> set (map ReadCourseDTO.ID [ToReadDTO_Course other_course])
   \<and> distinct (ids Article.ID (holding [deleted_article, article_v2]))
   \<and> deleted_article \<in> set (docs (holding [deleted_article, article_v2]))
   \<and> Article.DeletedAt deleted_article \<noteq> None
   \<and> GetByID_articles id0 (holding [deleted_article, article_v2]) = Inl ErrArticleNotFound
   \<and> Find_articles any_article (holding [deleted_article, article_v2])
       = Inr [ToReadDTO_Article article_v2]
   \<and> id0 \<notin> set (map ReadArticleDTO.ID [ToReadDTO_Article article_v2])"
proof -
  have c: "distinct (ids Course.ID (holding [deleted_course, other_course]))
      \<and> deleted_course \<in> set (docs (holding [deleted_course, other_course]))
      \<and> Course.DeletedAt deleted_course \<noteq> None"
    by (simp add: holding_def ids_def deleted_course_def other_course_def course0_def)
  have a: "distinct (ids Article.ID (holding [deleted_article, article_v2]))
      \<and> deleted_article \<in> set (docs (holding [deleted_article, article_v2]))
      \<and> Article.DeletedAt deleted_article \<noteq> None"
    by (simp add: holding_def ids_def deleted_article_def article_v2_def article0_def)
  have fc: "Find_courses rx0 any_course (holding [deleted_course, other_course])
       = Inr [ToReadDTO_Course other_course]"
    by (simp add: Find_courses_def Find_def any_course_def holding_def
        deleted_course_def other_course_def course0_def)
  have fa: "Find_articles any_article (holding [deleted_article, article_v2])
       = Inr [ToReadDTO_Article article_v2]"
    by (simp add: Find_articles_def Find_def any_article_def holding_def
        deleted_article_def article_v2_def article0_def)
  have ic: "Hex (Course.ID deleted_course) = id0"
    by (simp add: deleted_course_def course0_def Hex_1)
  have ia: "Hex (Article.ID deleted_article) = id0"
    by (simp add: deleted_article_def article0_def Hex_1)
  note inst = soft_deleted_excluded [of "holding [deleted_course, other_course]" deleted_course
      "holding [deleted_article, article_v2]" deleted_article]
  have gc: "GetByID_courses id0 (holding [deleted_course, other_course]) = Inl ErrCourseNotFound"
    and nc: "id0 \<notin> set (map ReadCourseDTO.ID [ToReadDTO_Course other_course])"
    using inst c fc unfolding ic by blast+
  have ga: "GetByID_articles id0 (holding [deleted_article, article_v2]) = Inl ErrArticleNotFound"
    and na: "id0 \<notin> set (map ReadArticleDTO.ID [ToReadDTO_Article article_v2])"
    using inst a fa unfolding ia by blast+
  show ?thesis
    using c a fc fa gc nc ga na by blast
qed

text \<open>
  Claim C8 as stated speaks of every soft-deleted entity. The user repository's
  \<open>GetByID\<close> filters on \<open>_id\<close> alone: a user whose \<open>deleted_at\<close> is set is returned.
\<close>

theorem deleted_user_is_returned:
  "User.DeletedAt user0 = Some 1500000000
   \<and> GetByID_users id0 (holding [user0]) = Inr (ToReadUserDTO user0)"
  by (simp add: GetByID_users_def id0_parses FindOne_def holding_def)
    (simp add: user0_def)

section \<open>Deleting twice\<close>

lemma Article_redelete: "(a\<lparr>Article.DeletedAt := x\<rparr> = a) = (Article.DeletedAt a = x)"
  by (cases a) auto

lemma Course_redelete: "(a\<lparr>Course.DeletedAt := x\<rparr> = a) = (Course.DeletedAt a = x)"
  by (cases a) auto

text \<open>
  On a stored id, \<open>DeleteByID\<close> reports not-found only when the stored \<open>deleted_at\<close>
  is already the millisecond of the clock reading; otherwise it succeeds, whether
  the document was active or soft-deleted.
\<close>

lemma DeleteByID_articles_found:
  assumes "ObjectIDFromHex s = Inr oid"
    and "find (\<lambda>d. Article.ID d = oid) (docs c) = Some a"
  shows "DeleteByID_articles now s c =
     (if Article.DeletedAt a = Some (DateTime now) then Inl ErrArticleNotFound else Inr (),
      c\<lparr>docs := update_first (\<lambda>d. Article.ID d = oid)
                  (\<lambda>d. d\<lparr>Article.DeletedAt := Some (DateTime now)\<rparr>) (docs c),
        journal := journal c @ [UpdateWrite oid]\<rparr>)"
  by (simp add: DeleteByID_articles_def UpdateByID_def assms Article_redelete)

lemma DeleteByID_courses_found:
  assumes "ObjectIDFromHex s = Inr oid"
    and "find (\<lambda>d. Course.ID d = oid) (docs c) = Some a"
  shows "DeleteByID_courses now s c =
     (if Course.DeletedAt a = Some (DateTime now) then Inl ErrCourseNotFound else Inr (),
      c\<lparr>docs := update_first (\<lambda>d. Course.ID d = oid)
                  (\<lambda>d. d\<lparr>Course.DeletedAt := Some (DateTime now)\<rparr>) (docs c),
        journal := journal c @ [UpdateWrite oid]\<rparr>)"
  by (simp add: DeleteByID_courses_def UpdateByID_def assms Course_redelete)

lemma sample_ids:
  "Article.ID article0 = 1" "Article.ID deleted_article = 1" "Article.ID article_v2 = 2"
  "Course.ID course0 = 1" "Course.ID deleted_course = 1" "Course.ID other_course = 2"
  by (simp_all add: article0_def deleted_article_def article_v2_def
      course0_def deleted_course_def other_course_def)

lemma sample_deleted:
  "Article.DeletedAt article0 = None" "Article.DeletedAt deleted_article = Some 1500000000"
  "Article.DeletedAt article_v2 = None"
  "Course.DeletedAt course0 = None" "Course.DeletedAt deleted_course = Some 1500000000"
  "Course.DeletedAt other_course = None"
  by (simp_all add: article0_def deleted_article_def article_v2_def
      course0_def deleted_course_def other_course_def)

lemma sample_instants:
  "DateTime 1500000000 = 1500000000" "DateTime 1500000400 = 1500000000"
  "DateTime 2000000000 = 2000000000"
  by (simp_all add: DateTime_def)

text \<open>
  Claim C9 at a soft-deleted record. \<open>DeleteByID\<close> updates by \<open>_id\<close> alone and
  reports not-found only when \<open>ModifiedCount\<close> is 0. An article is deleted at 1.5 s
  and \<open>DeleteByID\<close> is called again at 2 s, half a second later: the second call
  finds the soft-deleted article, overwrites its \<open>deleted_at\<close> and succeeds, where
  the claim has it fail with \<open>ErrArticleNotFound\<close>. (Called again within the
  millisecond of the first deletion, at 1.5000004 s, it changes nothing and does
  fail with \<open>ErrArticleNotFound\<close>.)
\<close>

theorem DeleteByID_twice:
  "DeleteByID_articles 1500000000 id0 (holding [article0])
     = (Inr (), \<lparr>docs = [deleted_article], journal = [UpdateWrite 1]\<rparr>)
   \<and> Article.DeletedAt deleted_article = Some 1500000000
   \<and> DeleteByID_articles 2000000000 id0 \<lparr>docs = [deleted_article], journal = [UpdateWrite 1]\<rparr>
     = (Inr (), \<lparr>docs = [article0\<lparr>Article.DeletedAt := Some 2000000000\<rparr>],
                 journal = [UpdateWrite 1, UpdateWrite 1]\<rparr>)
   \<and> DeleteByID_articles 1500000400 id0 \<lparr>docs = [deleted_article], journal = [UpdateWrite 1]\<rparr>
     = (Inl ErrArticleNotFound, \<lparr>docs = [deleted_article],
                                  journal = [UpdateWrite 1, UpdateWrite 1]\<rparr>)"
proof -
  have a1: "DeleteByID_articles 1500000000 id0 (holding [article0])
     = (Inr (), \<lparr>docs = [deleted_article], journal = [UpdateWrite 1]\<rparr>)"
    by (subst DeleteByID_articles_found [OF id0_parses, where a = article0])
      (simp_all add: holding_def sample_ids sample_deleted sample_instants deleted_article_def)
  have a2: "DeleteByID_articles 2000000000 id0 \<lparr>docs = [deleted_article], journal = [UpdateWrite 1]\<rparr>
     = (Inr (), \<lparr>docs = [article0\<lparr>Article.DeletedAt := Some 2000000000\<rparr>],
                 journal = [UpdateWrite 1, UpdateWrite 1]\<rparr>)"
    by (subst DeleteByID_articles_found [OF id0_parses, where a = deleted_article])
      (simp_all add: sample_ids sample_deleted sample_instants, simp add: deleted_article_def)
  have a3: "DeleteByID_articles 1500000400 id0 \<lparr>docs = [deleted_article], journal = [UpdateWrite 1]\<rparr>
     = (Inl ErrArticleNotFound, \<lparr>docs = [deleted_article],
                                  journal = [UpdateWrite 1, UpdateWrite 1]\<rparr>)"
    by (subst DeleteByID_articles_found [OF id0_parses, where a = deleted_article])
      (simp_all add: sample_ids sample_deleted sample_instants Article_redelete)
  show ?thesis
    using a1 a2 a3 sample_deleted(2) by blast
qed

text \<open>The course repository's \<open>DeleteByID\<close> has the same body and does the same.\<close>

lemma DeleteByID_courses_twice:
  "DeleteByID_courses 1500000000 id0 (holding [course0])
     = (Inr (), \<lparr>docs = [deleted_course], journal = [UpdateWrite 1]\<rparr>)
   \<and> DeleteByID_courses 2000000000 id0 \<lparr>docs = [deleted_course], journal = [UpdateWrite 1]\<rparr>
     = (Inr (), \<lparr>docs = [course0\<lparr>Course.DeletedAt := Some 2000000000\<rparr>],
                 journal = [UpdateWrite 1, UpdateWrite 1]\<rparr>)"
proof -
  have c1: "DeleteByID_courses 1500000000 id0 (holding [course0])
     = (Inr (), \<lparr>docs = [deleted_course], journal = [UpdateWrite 1]\<rparr>)"
    by (subst DeleteByID_courses_found [OF id0_parses, where a = course0])
      (simp_all add: holding_def sample_ids sample_deleted sample_instants deleted_course_def)
  have c2: "DeleteByID_courses 2000000000 id0 \<lparr>docs = [deleted_course], journal = [UpdateWrite 1]\<rparr>
     = (Inr (), \<lparr>docs = [course0\<lparr>Course.DeletedAt := Some 2000000000\<rparr>],
                 journal = [UpdateWrite 1, UpdateWrite 1]\<rparr>)"
    by (subst DeleteByID_courses_found [OF id0_parses, where a = deleted_course])
      (simp_all add: sample_ids sample_deleted sample_instants, simp add: deleted_course_def)
  show ?thesis
    using c1 c2 by blast
qed

section \<open>Cloning an article\<close>

lemma foldl_greatest:
  "key (foldl (\<lambda>b x. if key b < key x then x else b) d ds) = Max (key ` set (d # ds))"
  for key :: "'d \<Rightarrow> int"
proof (induction ds arbitrary: d)
  case Nil
  show ?case by simp
next
  case (Cons x xs)
  show ?case
  proof (cases "key d < key x")
    case True
    then have "Max (key ` set (d # x # xs)) = Max (key ` set (x # xs))"
      by (cases xs) (auto simp add: max_def)
    then show ?thesis
      using Cons.IH [of x] True by simp
  next
    case False
    then have "Max (key ` set (d # x # xs)) = Max (key ` set (d # xs))"
      by (cases xs) (auto simp add: max_def)
    then show ?thesis
      using Cons.IH [of d] False by simp
  qed
qed

lemma FindOneSortDesc_greatest:
  assumes "x \<in> set (docs c)" and "flt x"
  shows "\<exists>latest. FindOneSortDesc flt key c = Inr latest
           \<and> key latest = Max (key ` {d \<in> set (docs c). flt d})"
proof -
  obtain d ds where f: "filter flt (docs c) = d # ds"
    using assms by (cases "filter flt (docs c)") (auto simp add: filter_empty_conv)
  have "set (d # ds) = {d \<in> set (docs c). flt d}"
    unfolding f [symmetric] by auto
  then show ?thesis
    using foldl_greatest [of key d ds]
    by (simp add: FindOneSortDesc_def f)
qed

lemma Article_undeleted:
  "Article.DeletedAt a = None \<Longrightarrow> a\<lparr>Article.DeletedAt := None\<rparr> = a"
  by (cases a) auto

text \<open>
  For an active article and a fresh id, the clone is the original with the new id,
  the version one above the greatest version among the active articles of the same
  course and title (the original is one of them), both timestamps set to the clock
  reading, and every other field, \<open>is_draft\<close> included, as in the original. It is
  appended, its timestamps in whole milliseconds; the stored articles stay as they
  are.
\<close>

lemma Clone_inserts_next_version:
  assumes "ObjectIDFromHex s = Inr oid"
    and "find (\<lambda>d. Article.ID d = oid \<and> Article.DeletedAt d = None) (docs c) = Some original"
    and "newID \<notin> set (ids Article.ID c)"
  shows "CloneWithIncrementedVersion newID now s c =
     (Inr (ToReadDTO_Article
        (original\<lparr>Article.ID := newID,
                  Article.Version := int64 (Max (Article.Version `
                      {d \<in> set (docs c). Article.CourseID d = Article.CourseID original
                         \<and> Article.Title d = Article.Title original
                         \<and> Article.DeletedAt d = None}) + 1),
                  Article.CreatedAt := now, Article.UpdatedAt := now\<rparr>)),
      c\<lparr>docs := docs c @
          [original\<lparr>Article.ID := newID,
                  Article.Version := int64 (Max (Article.Version `
                      {d \<in> set (docs c). Article.CourseID d = Article.CourseID original
                         \<and> Article.Title d = Article.Title original
                         \<and> Article.DeletedAt d = None}) + 1),
                  Article.CreatedAt := DateTime now, Article.UpdatedAt := DateTime now\<rparr>],
        journal := journal c @ [InsertWrite newID]\<rparr>)"
proof -
  let ?sib = "\<lambda>d. Article.CourseID d = Article.CourseID original
                         \<and> Article.Title d = Article.Title original
                         \<and> Article.DeletedAt d = None"
  have o: "original \<in> set (docs c)" "Article.DeletedAt original = None"
    using assms(2) by (auto simp add: find_Some_iff in_set_conv_nth)
  then have so: "?sib original"
    by simp
  obtain latest where l: "FindOneSortDesc ?sib Article.Version c = Inr latest"
    "Article.Version latest = Max (Article.Version ` {d \<in> set (docs c). ?sib d})"
    using FindOneSortDesc_greatest [OF o(1), of ?sib Article.Version] so by blast
  have "Article.Version original \<le> Max (Article.Version ` {d \<in> set (docs c). ?sib d})"
    using o(1) so by (intro Max_ge) auto
  then have m: "max (Article.Version original) (Article.Version latest)
      = Max (Article.Version ` {d \<in> set (docs c). ?sib d})"
    using l(2) by simp
  show ?thesis
    using assms(3)
    by (simp add: CloneWithIncrementedVersion_def assms(1) FindOne_def assms(2) l(1) m
        InsertOne_def Let_def o(2) Article_undeleted marshal_Article_def)
qed

text \<open>
  Claim C1 at a published article. With versions 1 and 2 of an article stored, both
  with \<open>is_draft = false\<close>, cloning version 1 inserts a copy with the fresh id,
  version 3, the same course and title and both timestamps set to the clock reading,
  and leaves the two stored articles as they were; but the copy's \<open>is_draft\<close> is the
  original's \<open>false\<close>: the draft flag is not reset.
\<close>

theorem Clone_keeps_draft_flag:
  "Article.IsDraft article0 = False
   \<and> map Article.Version [article0, article_v2] = [1, 2]
   \<and> CloneWithIncrementedVersion 3 2000000000 id0 (holding [article0, article_v2])
     = (Inr (ToReadDTO_Article
               (article0\<lparr>Article.ID := 3, Article.Version := 3,
                          Article.CreatedAt := 2000000000, Article.UpdatedAt := 2000000000\<rparr>)),
        \<lparr>docs = [article0, article_v2,
                  article0\<lparr>Article.ID := 3, Article.Version := 3,
                            Article.CreatedAt := 2000000000, Article.UpdatedAt := 2000000000\<rparr>],
          journal = [InsertWrite 3]\<rparr>)
   \<and> Article.IsDraft (article0\<lparr>Article.ID := 3, Article.Version := 3,
                          Article.CreatedAt := 2000000000, Article.UpdatedAt := 2000000000\<rparr>) = False"
  by (simp add: CloneWithIncrementedVersion_def id0_parses FindOne_def FindOneSortDesc_def
      InsertOne_def ids_def holding_def article_v2_def int64_def Let_def
      marshal_Article_def DateTime_def)
    (simp add: article0_def)

end
